theory Spec2Isabelle
  imports Complex_Main "HOL-Library.Sublist"
begin

section \<open>The instance provisioning tool: deploy_vscode_instance.js\<close>

text \<open>
  The module \<^verbatim>\<open>src/tools/deploy_vscode_instance.js\<close> is a sequence of asynchronous calls
  into the platform (child processes, the file system, TCP listeners, the random number
  generator). The embedding passes the module's state explicitly and takes every answer
  of the platform from an environment record. An exception is a value \<open>Inl (Error m)\<close>;
  a function that can throw returns \<open>(exn + 'a) \<times> state\<close>.

  Every call into the platform is appended to a trace together with the answer it got,
  and the environment is asked with the number of calls made so far, so that the same
  question may get different answers at different times (a port that is free at one probe
  may be taken at the next).

  Two things are taken for granted: every call into the platform comes back, with a value
  or with an exception, and the parameters have the types that the documentation comment
  of the function gives them.
\<close>

subsection \<open>JavaScript values\<close>

datatype json =
    JNull
  | JBool bool
  | JNum int
  | JStr string
  | JArr "json list"
  | JObj "(string \<times> json) list"

text \<open>Property access \<^verbatim>\<open>o.k\<close> on an object literal; \<open>None\<close> is \<^verbatim>\<open>undefined\<close>.\<close>

fun jget :: "string \<Rightarrow> json \<Rightarrow> json option" where
  "jget k (JObj kvs) = map_of kvs k"
| "jget k _ = None"

datatype exn = Error (message: string)

text \<open>\<^verbatim>\<open>a || b\<close> on an optional string: the empty string and \<^verbatim>\<open>undefined\<close> are falsy.\<close>

definition js_or :: "string option \<Rightarrow> string \<Rightarrow> string" where
  "js_or a b = (case a of None \<Rightarrow> b | Some v \<Rightarrow> if v \<noteq> [] then v else b)"

text \<open>Truthiness of an optional string and of an optional integer.\<close>

definition truthy_str :: "string option \<Rightarrow> bool" where
  "truthy_str a = (case a of None \<Rightarrow> False | Some v \<Rightarrow> v \<noteq> [])"

definition truthy_int :: "int option \<Rightarrow> bool" where
  "truthy_int a = (case a of None \<Rightarrow> False | Some v \<Rightarrow> v \<noteq> 0)"

text \<open>The value of an optional parameter where the code has found it truthy.\<close>

definition str_value :: "string option \<Rightarrow> string" where
  "str_value a = (case a of None \<Rightarrow> [] | Some v \<Rightarrow> v)"

definition int_value :: "int option \<Rightarrow> int" where
  "int_value a = (case a of None \<Rightarrow> 0 | Some v \<Rightarrow> v)"

text \<open>\<^verbatim>\<open>s.includes(sub)\<close>.\<close>

fun str_includes :: "string \<Rightarrow> string \<Rightarrow> bool" where
  "str_includes [] sub = (sub = [])"
| "str_includes (c # cs) sub = (prefix sub (c # cs) \<or> str_includes cs sub)"

text \<open>\<^verbatim>\<open>xs.join(sep)\<close>.\<close>

fun join :: "string \<Rightarrow> string list \<Rightarrow> string" where
  "join sep [] = []"
| "join sep [x] = x"
| "join sep (x # y # ys) = x @ sep @ join sep (y # ys)"

text \<open>\<^verbatim>\<open>s.split(',')\<close> for a one-character separator.\<close>

fun split :: "char \<Rightarrow> string \<Rightarrow> string list" where
  "split c [] = [[]]"
| "split c (x # xs) =
     (if x = c then [] # split c xs
      else (case split c xs of [] \<Rightarrow> [[x]] | w # ws \<Rightarrow> (x # w) # ws))"

text \<open>
  \<^verbatim>\<open>!s.trim()\<close>: the trimmed string is empty exactly when the string consists of
  white space and line terminators only. A string of the embedding is the UTF-8 text
  that the platform hands over, so the white space beyond ASCII is recognised by its
  encoding: U+00A0 (C2 A0), U+1680 (E1 9A 80), U+2000 to U+200A, U+2028, U+2029 and
  U+202F (E2 80 and one more byte), U+205F (E2 81 9F), U+3000 (E3 80 80) and U+FEFF
  (EF BB BF).
\<close>

definition is_space :: "char \<Rightarrow> bool" where
  "is_space c = (c \<in> set [CHR '' '', CHR 0x09, CHR 0x0A, CHR 0x0B, CHR 0x0C, CHR 0x0D])"

definition general_space :: "char \<Rightarrow> bool" where
  "general_space b =
     (b \<in> set [CHR 0x80, CHR 0x81, CHR 0x82, CHR 0x83, CHR 0x84, CHR 0x85, CHR 0x86,
                CHR 0x87, CHR 0x88, CHR 0x89, CHR 0x8A, CHR 0xA8, CHR 0xA9, CHR 0xAF])"

fun trim_is_empty :: "string \<Rightarrow> bool" where
  "trim_is_empty [] = True"
| "trim_is_empty (c # cs) =
     (if is_space c then trim_is_empty cs
      else if c = CHR 0xC2 then
        (case cs of [] \<Rightarrow> False | b # r \<Rightarrow> b = CHR 0xA0 \<and> trim_is_empty r)
      else if c = CHR 0xE1 then
        (case cs of
           a # b # r \<Rightarrow> a = CHR 0x9A \<and> b = CHR 0x80 \<and> trim_is_empty r
         | _ \<Rightarrow> False)
      else if c = CHR 0xE2 then
        (case cs of
           a # b # r \<Rightarrow>
             (a = CHR 0x80 \<and> general_space b \<or> a = CHR 0x81 \<and> b = CHR 0x9F)
             \<and> trim_is_empty r
         | _ \<Rightarrow> False)
      else if c = CHR 0xE3 then
        (case cs of
           a # b # r \<Rightarrow> a = CHR 0x80 \<and> b = CHR 0x80 \<and> trim_is_empty r
         | _ \<Rightarrow> False)
      else if c = CHR 0xEF then
        (case cs of
           a # b # r \<Rightarrow> a = CHR 0xBB \<and> b = CHR 0xBF \<and> trim_is_empty r
         | _ \<Rightarrow> False)
      else False)"

text \<open>The decimal text of a number, as a template literal renders an integer.\<close>

definition digit :: "nat \<Rightarrow> char" where
  "digit d = ''0123456789'' ! d"

function string_of_nat :: "nat \<Rightarrow> string" where
  "string_of_nat n =
     (if n < 10 then [digit n] else string_of_nat (n div 10) @ [digit (n mod 10)])"
  by pat_completeness auto
termination
  by (relation "measure (\<lambda>n. n)") auto

declare string_of_nat.simps [simp del]

definition string_of_int :: "int \<Rightarrow> string" where
  "string_of_int i =
     (if i < 0 then CHR ''-'' # string_of_nat (nat (- i)) else string_of_nat (nat i))"

subsection \<open>The platform and the module state\<close>

text \<open>
  The answers of the platform: of a command (standard output, or the message of the
  error), of a file system call, and of a bind (the \<^verbatim>\<open>listening\<close> event, or the
  \<^verbatim>\<open>error\<close> event with its code). Then the three places where the module runs a
  command; the tag is bookkeeping of the trace only, the environment never sees it.
\<close>

datatype exec_outcome = ExecOk string | ExecErr string
datatype io_outcome = IoOk | IoErr string
datatype bind_outcome = Listening | ErrorEvent string

datatype exec_purpose = Detect | Launch | Status

datatype event =
    EvExec exec_purpose string exec_outcome
  | EvUuid string
  | EvAccess string io_outcome
  | EvListen int bind_outcome
  | EvRandom real
  | EvMkdir string io_outcome
  | EvWriteFile string json io_outcome
  | EvUnlink string io_outcome
  | EvNow string

record env =
  getenv :: "string \<Rightarrow> string option"
  dirname :: string
  path_resolve :: "string \<Rightarrow> string"
  path_join :: "string \<Rightarrow> string \<Rightarrow> string"
  exec_result :: "nat \<Rightarrow> string \<Rightarrow> exec_outcome"
  uuid_result :: "nat \<Rightarrow> string"
  access_result :: "nat \<Rightarrow> string \<Rightarrow> io_outcome"
  listen_result :: "nat \<Rightarrow> int \<Rightarrow> bind_outcome"
  bad_port_message :: "int \<Rightarrow> string"
  random_result :: "nat \<Rightarrow> real"
  mkdir_result :: "nat \<Rightarrow> string \<Rightarrow> io_outcome"
  writeFile_result :: "nat \<Rightarrow> string \<Rightarrow> io_outcome"
  unlink_result :: "nat \<Rightarrow> string \<Rightarrow> io_outcome"
  now_result :: "nat \<Rightarrow> string"

text \<open>
  The state: the cache of line 24, the record files by path, and the trace. Only this
  module writes the record files.
\<close>

record state =
  detectedRuntime :: "string option"
  files :: "string \<Rightarrow> json option"
  trace :: "event list"

definition emit :: "event \<Rightarrow> state \<Rightarrow> state" where
  "emit e s = s\<lparr>trace := trace s @ [e]\<rparr>"

text \<open>The calls made between two states of one run.\<close>

definition new_events :: "state \<Rightarrow> state \<Rightarrow> event list" where
  "new_events s s' = drop (length (trace s)) (trace s')"

subsection \<open>Configuration (lines 17 to 21)\<close>

definition DEFAULT_PASSWORD :: "env \<Rightarrow> string" where
  "DEFAULT_PASSWORD env = js_or (getenv env ''DEFAULT_PASSWORD'') ''changeme''"

definition DEFAULT_EXTENSIONS :: "env \<Rightarrow> string" where
  "DEFAULT_EXTENSIONS env =
     js_or (getenv env ''DEFAULT_EXTENSIONS'') ''ms-python.python,dbaeumer.vscode-eslint''"

definition DEFAULT_CPU_LIMIT :: "env \<Rightarrow> string" where
  "DEFAULT_CPU_LIMIT env = js_or (getenv env ''DEFAULT_CPU_LIMIT'') ''1.0''"

definition DEFAULT_MEMORY_LIMIT :: "env \<Rightarrow> string" where
  "DEFAULT_MEMORY_LIMIT env = js_or (getenv env ''DEFAULT_MEMORY_LIMIT'') ''2g''"

definition CONTAINER_RUNTIME :: "env \<Rightarrow> string" where
  "CONTAINER_RUNTIME env = js_or (getenv env ''CONTAINER_RUNTIME'') ''auto''"

subsection \<open>Calls into the platform\<close>

definition execAsync ::
  "env \<Rightarrow> exec_purpose \<Rightarrow> string \<Rightarrow> state \<Rightarrow> (exn + string) \<times> state" where
  "execAsync env tag cmd s =
     (let out = exec_result env (length (trace s)) cmd; s' = emit (EvExec tag cmd out) s
      in case out of ExecOk stdout \<Rightarrow> (Inr stdout, s') | ExecErr m \<Rightarrow> (Inl (Error m), s'))"

definition uuidv4 :: "env \<Rightarrow> state \<Rightarrow> string \<times> state" where
  "uuidv4 env s = (let u = uuid_result env (length (trace s)) in (u, emit (EvUuid u) s))"

definition Math_random :: "env \<Rightarrow> state \<Rightarrow> real \<times> state" where
  "Math_random env s =
     (let r = random_result env (length (trace s)) in (r, emit (EvRandom r) s))"

definition toISOString_now :: "env \<Rightarrow> state \<Rightarrow> string \<times> state" where
  "toISOString_now env s =
     (let t = now_result env (length (trace s)) in (t, emit (EvNow t) s))"

definition fs_access :: "env \<Rightarrow> string \<Rightarrow> state \<Rightarrow> (exn + unit) \<times> state" where
  "fs_access env p s =
     (let out = access_result env (length (trace s)) p; s' = emit (EvAccess p out) s
      in case out of IoOk \<Rightarrow> (Inr (), s') | IoErr m \<Rightarrow> (Inl (Error m), s'))"

definition fs_mkdir :: "env \<Rightarrow> string \<Rightarrow> state \<Rightarrow> (exn + unit) \<times> state" where
  "fs_mkdir env p s =
     (let out = mkdir_result env (length (trace s)) p; s' = emit (EvMkdir p out) s
      in case out of IoOk \<Rightarrow> (Inr (), s') | IoErr m \<Rightarrow> (Inl (Error m), s'))"

text \<open>A write that succeeds puts the content under the path; one that fails leaves the files alone.\<close>

definition fs_writeFile ::
  "env \<Rightarrow> string \<Rightarrow> json \<Rightarrow> state \<Rightarrow> (exn + unit) \<times> state" where
  "fs_writeFile env p content s =
     (let out = writeFile_result env (length (trace s)) p;
          s' = emit (EvWriteFile p content out) s
      in case out of
           IoOk \<Rightarrow> (Inr (), s'\<lparr>files := (files s')(p \<mapsto> content)\<rparr>)
         | IoErr m \<Rightarrow> (Inl (Error m), s'))"

definition fs_unlink :: "env \<Rightarrow> string \<Rightarrow> state \<Rightarrow> (exn + unit) \<times> state" where
  "fs_unlink env p s =
     (let out = unlink_result env (length (trace s)) p; s' = emit (EvUnlink p out) s
      in case out of
           IoOk \<Rightarrow> (Inr (), s'\<lparr>files := (files s')(p := None)\<rparr>)
         | IoErr m \<Rightarrow> (Inl (Error m), s'))"

subsection \<open>checkPortAvailability (lines 388 to 411)\<close>

text \<open>
  \<^verbatim>\<open>server.listen(port, '0.0.0.0')\<close> throws inside the promise executor when the port is
  not an integer of 0 to 65535, which rejects the promise. Otherwise exactly one of the
  two handlers runs: \<^verbatim>\<open>listening\<close>, or \<^verbatim>\<open>error\<close> with the code of the failed bind.
\<close>

definition checkPortAvailability :: "env \<Rightarrow> int \<Rightarrow> state \<Rightarrow> (exn + bool) \<times> state" where
  "checkPortAvailability env port s =
     (if port < 0 \<or> 65535 < port then (Inl (Error (bad_port_message env port)), s)
      else
        (let out = listen_result env (length (trace s)) port; s' = emit (EvListen port out) s
         in case out of
              ErrorEvent code \<Rightarrow>
                (if code = ''EADDRINUSE'' then (Inr False, s') else (Inr True, s'))
            | Listening \<Rightarrow> (Inr True, s')))"

subsection \<open>getRandomPort (lines 417 to 434)\<close>

definition minPort :: int where "minPort = 10000"
definition maxPort :: int where "maxPort = 65535"
definition maxAttempts :: nat where "maxAttempts = 10"

text \<open>
  The loop of getRandomPort from the given value of \<^verbatim>\<open>attempt\<close>. The product with
  \<^verbatim>\<open>Math.random()\<close> is taken over the reals. The rounding of the product to a double
  cannot lift the candidate out of the range: the largest double below 1 is
  1 minus 2 to the power of -53, and its product with 55536 lies more than half a unit in
  the last place below 55536, so that it is rounded downwards.
\<close>

function getRandomPort_loop :: "env \<Rightarrow> nat \<Rightarrow> state \<Rightarrow> (exn + int) \<times> state" where
  "getRandomPort_loop env attempt s =
     (if attempt < maxAttempts then
        (case Math_random env s of
           (r, s1) \<Rightarrow>
             (let port = \<lfloor>r * of_int (maxPort - minPort + 1)\<rfloor> + minPort
              in case checkPortAvailability env port s1 of
                   (Inl e, s2) \<Rightarrow> (Inl e, s2)
                 | (Inr isAvailable, s2) \<Rightarrow>
                     if isAvailable then (Inr port, s2)
                     else getRandomPort_loop env (attempt + 1) s2))
      else (Inl (Error ''Could not find an available port after multiple attempts''), s))"
  by pat_completeness auto
termination
  by (relation "measure (\<lambda>(env, attempt, s). maxAttempts - attempt)") auto

declare getRandomPort_loop.simps [simp del]

definition getRandomPort :: "env \<Rightarrow> state \<Rightarrow> (exn + int) \<times> state" where
  "getRandomPort env s = getRandomPort_loop env 0 s"

subsection \<open>detectContainerRuntime (lines 30 to 73)\<close>

text \<open>Lines 57 to 72: the second candidate, and the error when it fails too.\<close>

definition detect_podman :: "env \<Rightarrow> state \<Rightarrow> (exn + string) \<times> state" where
  "detect_podman env s =
     (case execAsync env Detect ''podman --version'' s of
        (Inl error, s1) \<Rightarrow>
          (Inl (Error ''Neither Docker nor Podman is available or running. Please install and start one of them.''), s1)
      | (Inr v, s1) \<Rightarrow>
          (case execAsync env Detect ''podman ps'' s1 of
             (Inl psError, s2) \<Rightarrow>
               (Inl (Error ''Neither Docker nor Podman is available or running. Please install and start one of them.''), s2)
           | (Inr ps, s2) \<Rightarrow> (Inr ''podman'', s2\<lparr>detectedRuntime := Some ''podman''\<rparr>)))"

definition detectContainerRuntime :: "env \<Rightarrow> state \<Rightarrow> (exn + string) \<times> state" where
  "detectContainerRuntime env s =
     (if truthy_str (detectedRuntime s) then (Inr (str_value (detectedRuntime s)), s)
      else if CONTAINER_RUNTIME env \<noteq> ''auto'' then
        (Inr (CONTAINER_RUNTIME env), s\<lparr>detectedRuntime := Some (CONTAINER_RUNTIME env)\<rparr>)
      else
        (case execAsync env Detect ''docker --version'' s of
           (Inl error, s1) \<Rightarrow> detect_podman env s1
         | (Inr v, s1) \<Rightarrow>
             (case execAsync env Detect ''docker ps'' s1 of
                (Inl psError, s2) \<Rightarrow> detect_podman env s2
              | (Inr ps, s2) \<Rightarrow> (Inr ''docker'', s2\<lparr>detectedRuntime := Some ''docker''\<rparr>))))"

subsection \<open>buildContainerCommand (lines 350 to 381)\<close>

text \<open>
  The password is optional here because the function tests it against \<^verbatim>\<open>undefined\<close> and
  \<^verbatim>\<open>null\<close> (\<open>None\<close>) as well as against the empty string. A backslash at the end of a
  line of the template literal is a line continuation: it adds nothing, and the blank
  before it and the four blanks that indent the next line stay.
\<close>

definition buildContainerCommand ::
  "string \<Rightarrow> string \<Rightarrow> string \<Rightarrow> int \<Rightarrow> string option \<Rightarrow> string list \<Rightarrow> string \<Rightarrow> string
     \<Rightarrow> (string \<times> string) list \<Rightarrow> string" where
  "buildContainerCommand runtime instanceName workspacePath port password extensions
       cpuLimit memoryLimit environment =
     (let envVars = join '' '' (map (\<lambda>(key, val). ''-e '' @ key @ ''='' @ val) environment);
          extensionsList = join '','' extensions;
          restartFlag =
            (if runtime = ''podman'' then ''--restart=unless-stopped''
             else ''--restart unless-stopped'');
          passwordEnv =
            (case password of
               None \<Rightarrow> []
             | Some pw \<Rightarrow> if pw = [] then [] else ''-e PASSWORD='' @ pw)
      in runtime @ '' run -d '' @
         ''    --name '' @ instanceName @ '' '' @
         ''    '' @ restartFlag @ '' '' @
         ''    -p '' @ string_of_int port @ '':8080 '' @
         ''    -v '' @ workspacePath @ '':/workspace '' @
         ''    -v vscode-data-'' @ instanceName @ '':/home/coder/.local/share/code-server '' @
         ''    -v vscode-extensions-'' @ instanceName @ '':/home/coder/.vscode/extensions '' @
         ''    --cpus='' @ cpuLimit @ '' '' @
         ''    --memory='' @ memoryLimit @ '' '' @
         ''    '' @ envVars @ '' '' @
         ''    '' @ passwordEnv @ '' '' @
         ''    -e EXTENSIONS='' @ extensionsList @ '' '' @
         ''    codercom/code-server:latest'')"

subsection \<open>deployVSCodeInstance (lines 89 to 335)\<close>

text \<open>
  The parameter object; the field \<open>params_port\<close> is \<^verbatim>\<open>params.port\<close>, and so on. A
  parameter left out is \<open>None\<close>.
\<close>

record params =
  params_name :: "string option"
  params_workspace_path :: "string option"
  params_port :: "int option"
  params_password :: "string option"
  params_extensions :: "string list option"
  params_cpu_limit :: "string option"
  params_memory_limit :: "string option"
  params_environment :: "(string \<times> string) list option"
  params_runtime :: "string option"

text \<open>
  The results. Every error result of the function is an object with a \<^verbatim>\<open>content\<close> array
  of one text item and an \<^verbatim>\<open>error\<close> object; the two port errors add \<^verbatim>\<open>details\<close>.
\<close>

definition text_content :: "string \<Rightarrow> json" where
  "text_content t = JArr [JObj [(''type'', JStr ''text''), (''text'', JStr t)]]"

definition error_result :: "string \<Rightarrow> int \<Rightarrow> string \<Rightarrow> json" where
  "error_result text code msg =
     JObj [(''content'', text_content text),
           (''error'', JObj [(''code'', JNum code), (''message'', JStr msg)])]"

definition port_error_result :: "string \<Rightarrow> int \<Rightarrow> string \<Rightarrow> int \<Rightarrow> json" where
  "port_error_result text code msg alternativePort =
     JObj [(''content'', text_content text),
           (''error'', JObj [(''code'', JNum code), (''message'', JStr msg),
              (''details'', JObj [(''suggested_port'', JNum alternativePort)])])]"

text \<open>Lines 172 to 186.\<close>

definition port_in_use_result :: "int \<Rightarrow> int \<Rightarrow> json" where
  "port_in_use_result port alternativePort =
     port_error_result
       (''Error: Port '' @ string_of_int port @ '' is already in use. Consider using port ''
          @ string_of_int alternativePort @ '' instead.'')
       (- 32603)
       (''Port '' @ string_of_int port @ '' is already in use'')
       alternativePort"

text \<open>Lines 248 to 262.\<close>

definition port_allocated_result :: "int \<Rightarrow> int \<Rightarrow> json" where
  "port_allocated_result port alternativePort =
     port_error_result
       (''Error: Port '' @ string_of_int port @ '' is already allocated. Consider using port ''
          @ string_of_int alternativePort @ '' instead.'')
       (- 32603)
       (''Port '' @ string_of_int port @ '' is already allocated'')
       alternativePort"

text \<open>Lines 266 to 277.\<close>

definition launch_failed_result :: "string \<Rightarrow> string \<Rightarrow> json" where
  "launch_failed_result runtime msg =
     error_result (''Error deploying '' @ runtime @ '' container: '' @ msg) (- 32603)
       (''Failed to deploy '' @ runtime @ '' container: '' @ msg)"

text \<open>Lines 287 to 298.\<close>

definition not_started_result :: json where
  "not_started_result =
     error_result ''Error: Failed to start VSCode instance'' (- 32603)
       ''Failed to start VSCode instance''"

text \<open>Lines 322 to 333, the result of the outer \<^verbatim>\<open>catch\<close>.\<close>

definition caught_result :: "exn \<Rightarrow> json" where
  "caught_result error =
     error_result (''Error: Failed to deploy VSCode instance: '' @ message error) (- 32603)
       (''Failed to deploy VSCode instance: '' @ message error)"

text \<open>Lines 302 to 319.\<close>

definition success_result ::
  "string \<Rightarrow> string \<Rightarrow> string \<Rightarrow> string \<Rightarrow> int \<Rightarrow> string \<Rightarrow> string \<Rightarrow> json" where
  "success_result runtime name instanceId instanceName port workspacePath password =
     (let authInfo =
            (if password \<noteq> [] then ''Password: '' @ password
             else ''Authentication: Passwordless'')
      in JObj
           [(''content'', text_content
               (''VSCode instance deployed successfully!'' @ [CHR 0x0A, CHR 0x0A]
                  @ ''Runtime: '' @ runtime @ [CHR 0x0A]
                  @ ''Name: '' @ name @ [CHR 0x0A]
                  @ ''Instance ID: '' @ instanceId @ [CHR 0x0A]
                  @ ''URL: http://localhost:'' @ string_of_int port @ [CHR 0x0A]
                  @ authInfo @ [CHR 0x0A]
                  @ ''Status: running'' @ [CHR 0x0A]
                  @ ''Workspace: '' @ workspacePath)),
            (''id'', JStr instanceId),
            (''name'', JStr name),
            (''instance_name'', JStr instanceName),
            (''runtime'', JStr runtime),
            (''port'', JNum port),
            (''url'', JStr (''http://localhost:'' @ string_of_int port)),
            (''status'', JStr ''running''),
            (''workspace_path'', JStr workspacePath),
            (''passwordless'', JBool (password = []))])"

text \<open>
  The resolved values of lines 193 to 204. A limit is carried as the text that the
  template literal interpolates; the number 0, which is falsy, is the case of a limit
  left out.
\<close>

definition resolved_password :: "env \<Rightarrow> params \<Rightarrow> string" where
  "resolved_password env params =
     (case params_password params of None \<Rightarrow> DEFAULT_PASSWORD env | Some pw \<Rightarrow> pw)"

definition resolved_extensions :: "env \<Rightarrow> params \<Rightarrow> string list" where
  "resolved_extensions env params =
     (case params_extensions params of
        None \<Rightarrow> split CHR '','' (DEFAULT_EXTENSIONS env)
      | Some xs \<Rightarrow> xs)"

definition resolved_cpu_limit :: "env \<Rightarrow> params \<Rightarrow> string" where
  "resolved_cpu_limit env params = js_or (params_cpu_limit params) (DEFAULT_CPU_LIMIT env)"

definition resolved_memory_limit :: "env \<Rightarrow> params \<Rightarrow> string" where
  "resolved_memory_limit env params =
     js_or (params_memory_limit params) (DEFAULT_MEMORY_LIMIT env)"

definition resolved_environment :: "params \<Rightarrow> (string \<times> string) list" where
  "resolved_environment params =
     (case params_environment params of None \<Rightarrow> [] | Some e \<Rightarrow> e)"

text \<open>Lines 207 and 225.\<close>

definition instancesDir :: "env \<Rightarrow> string" where
  "instancesDir env = path_join env (dirname env) ''../../vscode-instances''"

definition configPath :: "env \<Rightarrow> string \<Rightarrow> string" where
  "configPath env instanceName = path_join env (instancesDir env) (instanceName @ ''.json'')"

text \<open>
  Lines 211 to 222. The file holds \<^verbatim>\<open>JSON.stringify(instanceConfig, null, 2)\<close>; the
  embedding keeps the object itself as the content of the file.
\<close>

definition instanceConfig ::
  "env \<Rightarrow> params \<Rightarrow> string \<Rightarrow> string \<Rightarrow> string \<Rightarrow> int \<Rightarrow> string \<Rightarrow> json" where
  "instanceConfig env params instanceId instanceName workspacePath port created_at =
     JObj
       [(''id'', JStr instanceId),
        (''name'', JStr (str_value (params_name params))),
        (''instance_name'', JStr instanceName),
        (''workspace_path'', JStr workspacePath),
        (''port'', JNum port),
        (''extensions'', JArr (map JStr (resolved_extensions env params))),
        (''cpu_limit'', JStr (resolved_cpu_limit env params)),
        (''memory_limit'', JStr (resolved_memory_limit env params)),
        (''environment'',
           JObj (map (\<lambda>(key, val). (key, JStr val)) (resolved_environment params))),
        (''created_at'', JStr created_at)]"

text \<open>Line 229.\<close>

definition containerCommand ::
  "env \<Rightarrow> params \<Rightarrow> string \<Rightarrow> string \<Rightarrow> string \<Rightarrow> int \<Rightarrow> string" where
  "containerCommand env params runtime instanceName workspacePath port =
     buildContainerCommand runtime instanceName workspacePath port
       (Some (resolved_password env params)) (resolved_extensions env params)
       (resolved_cpu_limit env params) (resolved_memory_limit env params)
       (resolved_environment params)"

text \<open>Line 284.\<close>

definition status_command :: "string \<Rightarrow> string \<Rightarrow> string" where
  "status_command runtime instanceName =
     runtime @ '' ps --filter '' @ [CHR 0x22] @ ''name='' @ instanceName @ [CHR 0x22]
       @ '' --format '' @ [CHR 0x22] @ ''{{.Status}}'' @ [CHR 0x22]"

text \<open>
  Lines 206 to 319: from the resolved runtime, names, path and port to the result. The
  two-second wait of line 281 has no effect on the values and is left out, as are the
  diagnostics written with \<^verbatim>\<open>console.error\<close>. The deletion of line 240 sits in a
  \<^verbatim>\<open>try\<close> of its own whose \<^verbatim>\<open>catch\<close> only logs, so its outcome is dropped.
\<close>

definition deploy_launch ::
  "env \<Rightarrow> params \<Rightarrow> string \<Rightarrow> string \<Rightarrow> string \<Rightarrow> string \<Rightarrow> int \<Rightarrow> state
     \<Rightarrow> (exn + json) \<times> state" where
  "deploy_launch env params runtime instanceId instanceName workspacePath port s =
     (case fs_mkdir env (instancesDir env) s of
        (Inl e, s1) \<Rightarrow> (Inl e, s1)
      | (Inr u1, s1) \<Rightarrow>
     (case toISOString_now env s1 of
        (created_at, s2) \<Rightarrow>
     (case fs_writeFile env (configPath env instanceName)
             (instanceConfig env params instanceId instanceName workspacePath port created_at)
             s2 of
        (Inl e, s3) \<Rightarrow> (Inl e, s3)
      | (Inr u2, s3) \<Rightarrow>
     (case execAsync env Launch
             (containerCommand env params runtime instanceName workspacePath port) s3 of
        (Inl error, s4) \<Rightarrow>
          (if str_includes (message error) ''port is already allocated'' then
             (case fs_unlink env (configPath env instanceName) s4 of
                (unlinked, s5) \<Rightarrow>
                  (case getRandomPort env s5 of
                     (Inl e, s6) \<Rightarrow> (Inl e, s6)
                   | (Inr alternativePort, s6) \<Rightarrow>
                       (Inr (port_allocated_result port alternativePort), s6)))
           else (Inr (launch_failed_result runtime (message error)), s4))
      | (Inr launched, s4) \<Rightarrow>
          (case execAsync env Status (status_command runtime instanceName) s4 of
             (Inl e, s5) \<Rightarrow> (Inl e, s5)
           | (Inr containerStatus, s5) \<Rightarrow>
               (if trim_is_empty containerStatus then (Inr not_started_result, s5)
                else
                  (Inr (success_result runtime (str_value (params_name params)) instanceId
                          instanceName port workspacePath (resolved_password env params)),
                   s5)))))))"

text \<open>Lines 121 to 191, the start of the \<^verbatim>\<open>try\<close> block, which goes on in \<open>deploy_launch\<close>.\<close>

definition deploy_try :: "env \<Rightarrow> params \<Rightarrow> state \<Rightarrow> (exn + json) \<times> state" where
  "deploy_try env params s =
     (case (if truthy_str (params_runtime params)
            then (Inr (str_value (params_runtime params)), s)
            else detectContainerRuntime env s) of
        (Inl error, s1) \<Rightarrow>
          (Inr (error_result (''Error: '' @ message error) (- 32603) (message error)), s1)
      | (Inr runtime, s1) \<Rightarrow>
     (case uuidv4 env s1 of
        (uuid, s2) \<Rightarrow>
     (let instanceId = take 8 uuid;
          instanceName = ''vscode-'' @ str_value (params_name params) @ ''-'' @ instanceId;
          workspacePath = path_resolve env (str_value (params_workspace_path params))
      in case fs_access env workspacePath s2 of
           (Inl error, s3) \<Rightarrow>
             (Inr (error_result (''Error: Workspace path not found: '' @ workspacePath)
                     (- 32602) (''Workspace path not found: '' @ workspacePath)),
              s3)
         | (Inr u1, s3) \<Rightarrow>
             (if truthy_int (params_port params) then
                (let port = int_value (params_port params)
                 in case checkPortAvailability env port s3 of
                      (Inl e, s4) \<Rightarrow> (Inl e, s4)
                    | (Inr isPortAvailable, s4) \<Rightarrow>
                        (if \<not> isPortAvailable then
                           (case getRandomPort env s4 of
                              (Inl e, s5) \<Rightarrow> (Inl e, s5)
                            | (Inr alternativePort, s5) \<Rightarrow>
                                (Inr (port_in_use_result port alternativePort), s5))
                         else deploy_launch env params runtime instanceId instanceName
                                workspacePath port s4))
              else
                (case getRandomPort env s3 of
                   (Inl e, s4) \<Rightarrow> (Inl e, s4)
                 | (Inr port, s4) \<Rightarrow>
                     deploy_launch env params runtime instanceId instanceName
                       workspacePath port s4)))))"

text \<open>
  The whole function: the two parameter checks, then the \<^verbatim>\<open>try\<close> block with its
  \<^verbatim>\<open>catch\<close> of lines 320 to 334. The result is typed as the functions that can throw
  are, so that not throwing is a property and not a convention.
\<close>

definition deployVSCodeInstance :: "env \<Rightarrow> params \<Rightarrow> state \<Rightarrow> (exn + json) \<times> state" where
  "deployVSCodeInstance env params s =
     (if \<not> truthy_str (params_name params) then
        (Inr (error_result ''Error: name parameter is required'' (- 32602)
                ''name parameter is required''),
         s)
      else if \<not> truthy_str (params_workspace_path params) then
        (Inr (error_result ''Error: workspace_path parameter is required'' (- 32602)
                ''workspace_path parameter is required''),
         s)
      else
        (case deploy_try env params s of
           (Inl error, s') \<Rightarrow> (Inr (caught_result error), s')
         | (Inr result, s') \<Rightarrow> (Inr result, s')))"

section \<open>Notions of the specification\<close>

text \<open>The port probes of a trace, in order, each with the answer of the bind.\<close>

fun probes :: "event list \<Rightarrow> (int \<times> bind_outcome) list" where
  "probes [] = []"
| "probes (EvListen p out # es) = (p, out) # probes es"
| "probes (e # es) = probes es"

text \<open>The events of the port allocator.\<close>

fun is_probe_event :: "event \<Rightarrow> bool" where
  "is_probe_event (EvListen p out) = True"
| "is_probe_event (EvRandom r) = True"
| "is_probe_event e = False"

text \<open>The events of runtime detection.\<close>

fun is_detect_event :: "event \<Rightarrow> bool" where
  "is_detect_event (EvExec Detect cmd out) = True"
| "is_detect_event e = False"

text \<open>
  What is known of a call that has got as far as the launch: the events of the runtime
  detection and of the port resolution, the runtime and the port.
\<close>

definition resolved_by ::
  "params \<Rightarrow> string \<Rightarrow> event list \<Rightarrow> event list \<Rightarrow> int \<Rightarrow> bool" where
  "resolved_by params rt devs pevs port =
     (list_all is_detect_event devs \<and> list_all is_probe_event pevs
      \<and> (truthy_str (params_runtime params) \<longrightarrow>
            rt = str_value (params_runtime params) \<and> devs = [])
      \<and> (truthy_int (params_port params) \<longrightarrow>
            port = int_value (params_port params)
            \<and> (\<exists>out. pevs = [EvListen port out] \<and> out \<noteq> ErrorEvent ''EADDRINUSE'')))"

text \<open>\<^verbatim>\<open>Math.random()\<close> returns a number of the interval from 0 to 1, 1 excluded.\<close>

definition random_ok :: "env \<Rightarrow> bool" where
  "random_ok env = (\<forall>t. 0 \<le> random_result env t \<and> random_result env t < 1)"

text \<open>The number of places of a string where a given text starts.\<close>

fun occurrences :: "string \<Rightarrow> string \<Rightarrow> nat" where
  "occurrences sub [] = (if sub = [] then 1 else 0)"
| "occurrences sub (c # cs) = (if prefix sub (c # cs) then 1 else 0) + occurrences sub cs"

text \<open>The two kinds of result object.\<close>

definition is_error_descriptor :: "json \<Rightarrow> bool" where
  "is_error_descriptor r =
     (case jget ''content'' r of
        Some (JArr items) \<Rightarrow>
          (case jget ''error'' r of
             Some e \<Rightarrow>
               (case (jget ''code'' e, jget ''message'' e) of
                  (Some (JNum code), Some (JStr msg)) \<Rightarrow> True
                | _ \<Rightarrow> False)
           | None \<Rightarrow> False)
      | _ \<Rightarrow> False)"

definition is_success_descriptor :: "json \<Rightarrow> bool" where
  "is_success_descriptor r =
     (case jget ''content'' r of
        Some (JArr items) \<Rightarrow>
          jget ''error'' r = None \<and> jget ''status'' r = Some (JStr ''running'')
          \<and> (case (jget ''port'' r, jget ''url'' r, jget ''passwordless'' r) of
                (Some (JNum port), Some (JStr url), Some (JBool b)) \<Rightarrow> True
              | _ \<Rightarrow> False)
      | _ \<Rightarrow> False)"

text \<open>
  The number of credential flags that the values interpolated into the launch command
  spell out themselves, the password apart: in the runtime, in the instance name (which
  stands once after a blank and twice after a hyphen), in the workspace path, in the two
  limits, in the flags that the environment entries render and in the extension
  identifiers.
\<close>

definition foreign_flags ::
  "string \<Rightarrow> string \<Rightarrow> string \<Rightarrow> string list \<Rightarrow> string \<Rightarrow> string
     \<Rightarrow> (string \<times> string) list \<Rightarrow> nat" where
  "foreign_flags runtime instanceName workspacePath extensions cpuLimit memoryLimit
       environment =
     occurrences ''-e PASSWORD='' runtime
     + occurrences ''-e PASSWORD='' instanceName
     + 2 * occurrences ''-e PASSWORD='' (''-'' @ instanceName)
     + occurrences ''-e PASSWORD='' workspacePath
     + occurrences ''-e PASSWORD='' cpuLimit
     + occurrences ''-e PASSWORD='' memoryLimit
     + sum_list (map (\<lambda>(key, val). occurrences ''-e PASSWORD='' (''-e '' @ key @ ''='' @ val))
          environment)
     + sum_list (map (occurrences ''-e PASSWORD='') extensions)"

text \<open>The suggested port of an error result, if it carries one.\<close>

definition suggested_port :: "json \<Rightarrow> json option" where
  "suggested_port r =
     (case jget ''error'' r of
        None \<Rightarrow> None
      | Some e \<Rightarrow>
          (case jget ''details'' e of None \<Rightarrow> None | Some d \<Rightarrow> jget ''suggested_port'' d))"

text \<open>
  The events of a call that has not yet touched the record files or launched anything:
  detection commands, the drawing of the instance id, the check of the workspace path,
  port probes and random numbers.
\<close>

fun is_resolving_event :: "event \<Rightarrow> bool" where
  "is_resolving_event (EvExec Detect cmd out) = True"
| "is_resolving_event (EvUuid u) = True"
| "is_resolving_event (EvAccess p out) = True"
| "is_resolving_event (EvListen p out) = True"
| "is_resolving_event (EvRandom r) = True"
| "is_resolving_event e = False"

text \<open>
  Every launch in a list of events comes after a successful write of a record file;
  the flag says whether such a write has already been seen.
\<close>

fun written_before_launch :: "bool \<Rightarrow> event list \<Rightarrow> bool" where
  "written_before_launch w [] = True"
| "written_before_launch w (EvWriteFile p c IoOk # es) = written_before_launch True es"
| "written_before_launch w (EvExec Launch cmd out # es) = (w \<and> written_before_launch w es)"
| "written_before_launch w (e # es) = written_before_launch w es"


section \<open>Sample environments\<close>

definition params_demo :: params where
  "params_demo =
     \<lparr>params_name = Some ''demo'', params_workspace_path = Some ''/tmp/ws'',
      params_port = Some 12345, params_password = Some [], params_extensions = None,
      params_cpu_limit = None, params_memory_limit = None, params_environment = None,
      params_runtime = None\<rparr>"

definition state_init :: state where
  "state_init = \<lparr>detectedRuntime = None, files = Map.empty, trace = []\<rparr>"

text \<open>A platform where every call succeeds and every port is free.\<close>

definition env_ok :: env where
  "env_ok =
     \<lparr>getenv = (\<lambda>k. None), dirname = ''/app/src/tools'',
      path_resolve = (\<lambda>p. p), path_join = (\<lambda>a b. a @ ''/'' @ b),
      exec_result = (\<lambda>t cmd. ExecOk ''Up 2 seconds''),
      uuid_result = (\<lambda>t. ''1b9d6bcd-bbfd-4b2d-9b5d-ab8dfbbd4bed''),
      access_result = (\<lambda>t p. IoOk),
      listen_result = (\<lambda>t p. Listening),
      bad_port_message = (\<lambda>p. ''Port should be >= 0 and < 65536''),
      random_result = (\<lambda>t. 1 / 2),
      mkdir_result = (\<lambda>t p. IoOk), writeFile_result = (\<lambda>t p. IoOk),
      unlink_result = (\<lambda>t p. IoOk),
      now_result = (\<lambda>t. ''2024-01-01T00:00:00.000Z'')\<rparr>"

text \<open>The same platform with every port taken.\<close>

definition env_busy :: env where
  "env_busy = env_ok\<lparr>listen_result := (\<lambda>t p. ErrorEvent ''EADDRINUSE'')\<rparr>"


text \<open>
  The record file of the sample call, and platforms on which the launch fails: with the
  message of a port collision (on \<open>env_collision\<close> the deletion of the record fails too and
  only port 12345 is free), and with another message.
\<close>

definition record_path :: string where
  "record_path = ''/app/src/tools/../../vscode-instances/vscode-demo-1b9d6bcd.json''"

definition allocated_message :: string where
  "allocated_message =
     ''Bind for 0.0.0.0:12345 failed: port is already allocated.''"

definition env_race :: env where
  "env_race =
     env_ok\<lparr>exec_result :=
       (\<lambda>t cmd. if prefix ''docker run'' cmd then ExecErr allocated_message
                 else ExecOk ''Up 2 seconds'')\<rparr>"

definition env_collision :: env where
  "env_collision =
     env_race\<lparr>listen_result :=
        (\<lambda>t p. if p = 12345 then Listening else ErrorEvent ''EADDRINUSE''),
       unlink_result := (\<lambda>t p. IoErr ''EPERM: operation not permitted, unlink'')\<rparr>"

definition env_port_taken :: env where
  "env_port_taken =
     env_ok\<lparr>listen_result :=
       (\<lambda>t p. if p = 12345 then ErrorEvent ''EADDRINUSE'' else Listening)\<rparr>"

definition env_launch_fails :: env where
  "env_launch_fails =
     env_ok\<lparr>exec_result :=
       (\<lambda>t cmd. if prefix ''docker run'' cmd
                 then ExecErr ''Unable to find image codercom/code-server:latest locally''
                 else ExecOk ''Up 2 seconds'')\<rparr>"

text \<open>
  A platform on which the status query answers with a line break only, a platform with a
  configured default password, and parameters whose environment repeats the password.
\<close>

definition env_blank_status :: env where
  "env_blank_status =
     env_ok\<lparr>exec_result :=
       (\<lambda>t cmd. if prefix ''docker ps --filter'' cmd then ExecOk [CHR 0x0A]
                 else ExecOk ''Up 2 seconds'')\<rparr>"

definition env_configured :: env where
  "env_configured =
     env_ok\<lparr>getenv :=
       (\<lambda>k. if k = ''DEFAULT_PASSWORD'' then Some ''PASSWORD1'' else None)\<rparr>"


section \<open>The port prober and the port allocator\<close>

lemma probes_append: "probes (xs @ ys) = probes xs @ probes ys"
  by (induction xs rule: probes.induct) auto

lemma new_events_append [simp]: "trace s' = trace s @ evs \<Longrightarrow> new_events s s' = evs"
  by (simp add: new_events_def)

lemma candidate_range:
  assumes "0 \<le> r" "r < 1"
  shows "10000 \<le> \<lfloor>r * of_int (maxPort - minPort + 1)\<rfloor> + minPort"
    and "\<lfloor>r * of_int (maxPort - minPort + 1)\<rfloor> + minPort \<le> 65535"
proof -
  have "0 \<le> r * 55536" using assms by simp
  then have "0 \<le> \<lfloor>r * 55536\<rfloor>" by simp
  then show "10000 \<le> \<lfloor>r * of_int (maxPort - minPort + 1)\<rfloor> + minPort"
    by (simp add: maxPort_def minPort_def)
  have "r * 55536 < 55536" using assms by simp
  then have "\<lfloor>r * 55536\<rfloor> < 55536" by (simp add: floor_less_iff)
  then show "\<lfloor>r * of_int (maxPort - minPort + 1)\<rfloor> + minPort \<le> 65535"
    by (simp add: maxPort_def minPort_def)
qed

lemma checkPortAvailability_cases:
  assumes "checkPortAvailability env port s = (res, s')"
  shows "(res = Inl (Error (bad_port_message env port)) \<and> s' = s \<and> (port < 0 \<or> 65535 < port))
       \<or> (0 \<le> port \<and> port \<le> 65535
            \<and> s' = emit (EvListen port (listen_result env (length (trace s)) port)) s
            \<and> res = Inr (listen_result env (length (trace s)) port \<noteq> ErrorEvent ''EADDRINUSE''))"
  using assms
  by (auto simp: checkPortAvailability_def Let_def split: if_splits bind_outcome.splits)

lemma getRandomPort_loop_frame:
  assumes "getRandomPort_loop env attempt s = (res, s')"
  shows "\<exists>evs. trace s' = trace s @ evs \<and> list_all is_probe_event evs
           \<and> files s' = files s \<and> detectedRuntime s' = detectedRuntime s"
  using assms
proof (induction env attempt s arbitrary: res s' rule: getRandomPort_loop.induct)
  case (1 env attempt s)
  show ?case
  proof (cases "attempt < maxAttempts")
    case False
    with "1.prems" show ?thesis
      by (simp add: getRandomPort_loop.simps)
  next
    case True
    define r where "r = random_result env (length (trace s))"
    define s1 where "s1 = emit (EvRandom r) s"
    define port where "port = \<lfloor>r * of_int (maxPort - minPort + 1)\<rfloor> + minPort"
    have mr: "Math_random env s = (r, s1)"
      by (simp add: Math_random_def Let_def r_def s1_def)
    obtain cres s2 where cp: "checkPortAvailability env port s1 = (cres, s2)"
      by (cases "checkPortAvailability env port s1")
    from checkPortAvailability_cases[OF cp]
    consider (bad) "cres = Inl (Error (bad_port_message env port))" "s2 = s1"
      | (probed) out where "s2 = emit (EvListen port out) s1" "cres = Inr (out \<noteq> ErrorEvent ''EADDRINUSE'')"
      by blast
    then show ?thesis
    proof cases
      case bad
      have "getRandomPort_loop env attempt s = (Inl (Error (bad_port_message env port)), s1)"
        using True mr cp bad
        by (subst getRandomPort_loop.simps) (simp add: port_def Let_def)
      with "1.prems" show ?thesis
        by (auto simp: s1_def emit_def)
    next
      case probed
      show ?thesis
      proof (cases "out = ErrorEvent ''EADDRINUSE''")
        case False
        have "getRandomPort_loop env attempt s = (Inr port, s2)"
          using True mr cp probed False
          by (subst getRandomPort_loop.simps) (simp add: port_def Let_def)
        with "1.prems" show ?thesis
          by (auto simp: probed s1_def emit_def)
      next
        case busy: True
        have "getRandomPort_loop env attempt s = getRandomPort_loop env (attempt + 1) s2"
          using True mr cp probed busy
          by (subst getRandomPort_loop.simps) (simp add: port_def Let_def)
        with "1.prems" have rec: "getRandomPort_loop env (attempt + 1) s2 = (res, s')" by simp
        have cp': "checkPortAvailability env port s1 = (Inr False, s2)"
          using cp probed busy by simp
        from "1.IH"[OF True mr[symmetric] port_def cp'[symmetric] refl _ rec]
        obtain evs where "trace s' = trace s2 @ evs" "list_all is_probe_event evs"
          "files s' = files s2" "detectedRuntime s' = detectedRuntime s2"
          by auto
        then show ?thesis
          by (auto simp: probed s1_def emit_def)
      qed
    qed
  qed
qed

lemma getRandomPort_frame:
  assumes "getRandomPort env s = (res, s')"
  shows "\<exists>evs. trace s' = trace s @ evs \<and> list_all is_probe_event evs
           \<and> files s' = files s \<and> detectedRuntime s' = detectedRuntime s"
  using assms getRandomPort_loop_frame by (simp add: getRandomPort_def)

lemma detect_podman_frame:
  assumes "detect_podman env s = (res, s')"
  shows "\<exists>evs. trace s' = trace s @ evs \<and> list_all is_detect_event evs \<and> files s' = files s"
  using assms
  by (auto simp: detect_podman_def execAsync_def emit_def Let_def
           split: exec_outcome.splits)

lemma detectContainerRuntime_frame:
  assumes "detectContainerRuntime env s = (res, s')"
  shows "\<exists>evs. trace s' = trace s @ evs \<and> list_all is_detect_event evs \<and> files s' = files s"
proof -
  have "\<exists>evs. trace s' = trace s0 @ evs \<and> list_all is_detect_event evs \<and> files s' = files s0"
    if "detect_podman env s0 = (res, s')" for s0
    using detect_podman_frame[OF that] .
  then show ?thesis
    using assms
    by (fastforce simp: detectContainerRuntime_def execAsync_def emit_def Let_def
             split: exec_outcome.splits if_splits dest!: detect_podman_frame)
qed


lemma deploy_launch_cases [consumes 1, case_names mkdir_failed write_failed launch_failed
    collision status_threw status_read]:
  assumes run: "deploy_launch env params runtime instanceId instanceName workspacePath port s = (res, s')"
  obtains
    (mkdir_failed) m where
      "trace s' = trace s @ [EvMkdir (instancesDir env) (IoErr m)]"
      "res = Inl (Error m)" "files s' = files s" "detectedRuntime s' = detectedRuntime s"
  | (write_failed) t m where
      "trace s' = trace s @
         [EvMkdir (instancesDir env) IoOk, EvNow t,
          EvWriteFile (configPath env instanceName)
            (instanceConfig env params instanceId instanceName workspacePath port t) (IoErr m)]"
      "res = Inl (Error m)" "files s' = files s" "detectedRuntime s' = detectedRuntime s"
  | (launch_failed) t m where
      "\<not> str_includes m ''port is already allocated''"
      "trace s' = trace s @
         [EvMkdir (instancesDir env) IoOk, EvNow t,
          EvWriteFile (configPath env instanceName)
            (instanceConfig env params instanceId instanceName workspacePath port t) IoOk,
          EvExec Launch (containerCommand env params runtime instanceName workspacePath port)
            (ExecErr m)]"
      "res = Inr (launch_failed_result runtime m)"
      "files s' = (files s)(configPath env instanceName \<mapsto>
         instanceConfig env params instanceId instanceName workspacePath port t)"
      "detectedRuntime s' = detectedRuntime s"
  | (collision) t m out s5 ares where
      "str_includes m ''port is already allocated''"
      "trace s5 = trace s @
         [EvMkdir (instancesDir env) IoOk, EvNow t,
          EvWriteFile (configPath env instanceName)
            (instanceConfig env params instanceId instanceName workspacePath port t) IoOk,
          EvExec Launch (containerCommand env params runtime instanceName workspacePath port)
            (ExecErr m),
          EvUnlink (configPath env instanceName) out]"
      "files s5 = (case out of
           IoOk \<Rightarrow> (files s)(configPath env instanceName := None)
         | IoErr um \<Rightarrow> (files s)(configPath env instanceName \<mapsto>
             instanceConfig env params instanceId instanceName workspacePath port t))"
      "detectedRuntime s5 = detectedRuntime s"
      "getRandomPort env s5 = (ares, s')"
      "res = (case ares of Inl e \<Rightarrow> Inl e
              | Inr alternativePort \<Rightarrow> Inr (port_allocated_result port alternativePort))"
  | (status_threw) t out m where
      "trace s' = trace s @
         [EvMkdir (instancesDir env) IoOk, EvNow t,
          EvWriteFile (configPath env instanceName)
            (instanceConfig env params instanceId instanceName workspacePath port t) IoOk,
          EvExec Launch (containerCommand env params runtime instanceName workspacePath port)
            (ExecOk out),
          EvExec Status (status_command runtime instanceName) (ExecErr m)]"
      "res = Inl (Error m)"
      "files s' = (files s)(configPath env instanceName \<mapsto>
         instanceConfig env params instanceId instanceName workspacePath port t)"
      "detectedRuntime s' = detectedRuntime s"
  | (status_read) t out st where
      "trace s' = trace s @
         [EvMkdir (instancesDir env) IoOk, EvNow t,
          EvWriteFile (configPath env instanceName)
            (instanceConfig env params instanceId instanceName workspacePath port t) IoOk,
          EvExec Launch (containerCommand env params runtime instanceName workspacePath port)
            (ExecOk out),
          EvExec Status (status_command runtime instanceName) (ExecOk st)]"
      "res = (if trim_is_empty st then Inr not_started_result
              else Inr (success_result runtime (str_value (params_name params)) instanceId
                     instanceName port workspacePath (resolved_password env params)))"
      "files s' = (files s)(configPath env instanceName \<mapsto>
         instanceConfig env params instanceId instanceName workspacePath port t)"
      "detectedRuntime s' = detectedRuntime s"
proof -
  note defs = deploy_launch_def fs_mkdir_def toISOString_now_def fs_writeFile_def
    execAsync_def fs_unlink_def Let_def emit_def new_events_def
  let ?n = "length (trace s)"
  show thesis
  proof (cases "mkdir_result env ?n (instancesDir env)")
    case (IoErr m)
    with run show thesis by (intro mkdir_failed[of m]) (auto simp: defs)
  next
    case mk: IoOk
    show thesis
    proof (cases "writeFile_result env (Suc (Suc ?n)) (configPath env instanceName)")
      case (IoErr m)
      with run mk show thesis
        by (intro write_failed[of "now_result env (Suc ?n)" m]) (auto simp: defs)
    next
      case wr: IoOk
      show thesis
      proof (cases "exec_result env (Suc (Suc (Suc ?n)))
                      (containerCommand env params runtime instanceName workspacePath port)")
        case (ExecErr m)
        show thesis
        proof (cases "str_includes m ''port is already allocated''")
          case False
          with run mk wr ExecErr show thesis
            by (intro launch_failed[of m "now_result env (Suc ?n)"]) (auto simp: defs)
        next
          case True
          define out where
            "out = unlink_result env (Suc (Suc (Suc (Suc ?n)))) (configPath env instanceName)"
          obtain u s5 where ul: "fs_unlink env (configPath env instanceName)
              (s\<lparr>files := (files s)(configPath env instanceName \<mapsto>
                    instanceConfig env params instanceId instanceName workspacePath port
                      (now_result env (Suc ?n))),
                 trace := trace s @
                   [EvMkdir (instancesDir env) IoOk, EvNow (now_result env (Suc ?n)),
                    EvWriteFile (configPath env instanceName)
                      (instanceConfig env params instanceId instanceName workspacePath port
                         (now_result env (Suc ?n))) IoOk,
                    EvExec Launch
                      (containerCommand env params runtime instanceName workspacePath port)
                      (ExecErr m)]\<rparr>) = (u, s5)"
            by (meson surj_pair)
          obtain ares s6 where gr: "getRandomPort env s5 = (ares, s6)"
            by (meson surj_pair)
          have s': "s' = s6" and res: "res = (case ares of Inl e \<Rightarrow> Inl e
              | Inr alternativePort \<Rightarrow> Inr (port_allocated_result port alternativePort))"
            using run mk wr ExecErr True ul gr
            by (auto simp: deploy_launch_def fs_mkdir_def toISOString_now_def fs_writeFile_def
                  execAsync_def Let_def emit_def split: sum.splits)
          show thesis
            using True ul gr res s'
            by (intro collision[of m s5 "now_result env (Suc ?n)" out ares])
               (auto simp: fs_unlink_def Let_def emit_def out_def split: io_outcome.splits)
        qed
      next
        case (ExecOk out)
        show thesis
        proof (cases "exec_result env (Suc (Suc (Suc (Suc ?n))))
                        (status_command runtime instanceName)")
          case (ExecErr m)
          with run mk wr ExecOk show thesis
            by (intro status_threw[of "now_result env (Suc ?n)" out m]) (auto simp: defs)
        next
          case st: (ExecOk st)
          with run mk wr ExecOk show thesis
            by (intro status_read[of "now_result env (Suc ?n)" out st])
               (auto simp: defs split: if_splits)
        qed
      qed
    qed
  qed
qed

lemma resolve_runtime_frame:
  assumes "(if truthy_str (params_runtime params)
            then (Inr (str_value (params_runtime params)), s)
            else detectContainerRuntime env s) = (rres, s1)"
  shows "\<exists>devs. trace s1 = trace s @ devs \<and> list_all is_detect_event devs
           \<and> files s1 = files s
           \<and> (truthy_str (params_runtime params) \<longrightarrow>
                 devs = [] \<and> s1 = s \<and> rres = Inr (str_value (params_runtime params)))
           \<and> (\<not> truthy_str (params_runtime params) \<longrightarrow>
                 detectContainerRuntime env s = (rres, s1))"
proof (cases "truthy_str (params_runtime params)")
  case True
  with assms show ?thesis by auto
next
  case False
  with assms have "detectContainerRuntime env s = (rres, s1)" by simp
  from detectContainerRuntime_frame[OF this] this False show ?thesis by auto
qed

lemma deploy_try_cases [consumes 1, case_names no_runtime no_workspace bad_port port_busy
    port_free no_port_failed no_port]:
  assumes run: "deploy_try env params s = (res, s')"
  obtains
    (no_runtime) e where
      "\<not> truthy_str (params_runtime params)"
      "detectContainerRuntime env s = (Inl e, s')"
      "res = Inr (error_result (''Error: '' @ message e) (- 32603) (message e))"
  | (no_workspace) rt devs u m where
      "list_all is_detect_event devs"
      "truthy_str (params_runtime params) \<Longrightarrow>
         rt = str_value (params_runtime params) \<and> devs = []
         \<and> detectedRuntime s' = detectedRuntime s"
      "trace s' = trace s @ devs @
         [EvUuid u,
          EvAccess (path_resolve env (str_value (params_workspace_path params))) (IoErr m)]"
      "files s' = files s"
      "res = Inr (error_result
         (''Error: Workspace path not found: ''
            @ path_resolve env (str_value (params_workspace_path params)))
         (- 32602)
         (''Workspace path not found: ''
            @ path_resolve env (str_value (params_workspace_path params))))"
  | (bad_port) rt devs u where
      "list_all is_detect_event devs"
      "truthy_str (params_runtime params) \<Longrightarrow>
         rt = str_value (params_runtime params) \<and> devs = []
         \<and> detectedRuntime s' = detectedRuntime s"
      "truthy_int (params_port params)"
      "trace s' = trace s @ devs @
         [EvUuid u,
          EvAccess (path_resolve env (str_value (params_workspace_path params))) IoOk]"
      "files s' = files s"
      "res = Inl (Error (bad_port_message env (int_value (params_port params))))"
  | (port_busy) rt devs u s4 ares where
      "list_all is_detect_event devs"
      "truthy_str (params_runtime params) \<Longrightarrow>
         rt = str_value (params_runtime params) \<and> devs = []
         \<and> detectedRuntime s4 = detectedRuntime s"
      "truthy_int (params_port params)"
      "trace s4 = trace s @ devs @
         [EvUuid u,
          EvAccess (path_resolve env (str_value (params_workspace_path params))) IoOk,
          EvListen (int_value (params_port params)) (ErrorEvent ''EADDRINUSE'')]"
      "files s4 = files s"
      "getRandomPort env s4 = (ares, s')"
      "res = (case ares of Inl e \<Rightarrow> Inl e
              | Inr alternativePort \<Rightarrow>
                  Inr (port_in_use_result (int_value (params_port params)) alternativePort))"
  | (port_free) rt devs u out s4 where
      "list_all is_detect_event devs"
      "truthy_str (params_runtime params) \<Longrightarrow>
         rt = str_value (params_runtime params) \<and> devs = []
         \<and> detectedRuntime s4 = detectedRuntime s"
      "truthy_int (params_port params)"
      "out \<noteq> ErrorEvent ''EADDRINUSE''"
      "trace s4 = trace s @ devs @
         [EvUuid u,
          EvAccess (path_resolve env (str_value (params_workspace_path params))) IoOk,
          EvListen (int_value (params_port params)) out]"
      "files s4 = files s"
      "deploy_launch env params rt (take 8 u)
         (''vscode-'' @ str_value (params_name params) @ ''-'' @ take 8 u)
         (path_resolve env (str_value (params_workspace_path params)))
         (int_value (params_port params)) s4 = (res, s')"
  | (no_port_failed) rt devs u s3 e where
      "list_all is_detect_event devs"
      "truthy_str (params_runtime params) \<Longrightarrow>
         rt = str_value (params_runtime params) \<and> devs = []
         \<and> detectedRuntime s3 = detectedRuntime s"
      "\<not> truthy_int (params_port params)"
      "trace s3 = trace s @ devs @
         [EvUuid u,
          EvAccess (path_resolve env (str_value (params_workspace_path params))) IoOk]"
      "files s3 = files s"
      "getRandomPort env s3 = (Inl e, s')"
      "res = Inl e"
  | (no_port) rt devs u s3 port s4 where
      "list_all is_detect_event devs"
      "truthy_str (params_runtime params) \<Longrightarrow>
         rt = str_value (params_runtime params) \<and> devs = []
         \<and> detectedRuntime s3 = detectedRuntime s"
      "\<not> truthy_int (params_port params)"
      "trace s3 = trace s @ devs @
         [EvUuid u,
          EvAccess (path_resolve env (str_value (params_workspace_path params))) IoOk]"
      "files s3 = files s"
      "getRandomPort env s3 = (Inr port, s4)"
      "deploy_launch env params rt (take 8 u)
         (''vscode-'' @ str_value (params_name params) @ ''-'' @ take 8 u)
         (path_resolve env (str_value (params_workspace_path params))) port s4 = (res, s')"
proof -
  let ?ws = "path_resolve env (str_value (params_workspace_path params))"
  let ?P = "int_value (params_port params)"
  obtain rres s1 where rr: "(if truthy_str (params_runtime params)
            then (Inr (str_value (params_runtime params)), s)
            else detectContainerRuntime env s) = (rres, s1)"
    by (meson surj_pair)
  from resolve_runtime_frame[OF rr] obtain devs where
    devs: "trace s1 = trace s @ devs" "list_all is_detect_event devs" "files s1 = files s"
      "truthy_str (params_runtime params) \<Longrightarrow>
         devs = [] \<and> s1 = s \<and> rres = Inr (str_value (params_runtime params))"
      "\<not> truthy_str (params_runtime params) \<Longrightarrow> detectContainerRuntime env s = (rres, s1)"
    by blast
  show thesis
  proof (cases rres)
    case (Inl e)
    with devs(4) have nt: "\<not> truthy_str (params_runtime params)" by auto
    from run rr Inl have "s' = s1" "res = Inr (error_result (''Error: '' @ message e) (- 32603) (message e))"
      by (simp_all add: deploy_try_def)
    with nt devs(5) Inl show thesis by (intro no_runtime[of e]) auto
  next
    case (Inr rt)
    define u where "u = uuid_result env (length (trace s1))"
    define s2 where "s2 = emit (EvUuid u) s1"
    have uu: "uuidv4 env s1 = (u, s2)" by (simp add: uuidv4_def Let_def u_def s2_def)
    let ?inst = "''vscode-'' @ str_value (params_name params) @ ''-'' @ take 8 u"
    have rtf: "truthy_str (params_runtime params) \<Longrightarrow>
         rt = str_value (params_runtime params) \<and> devs = [] \<and> detectedRuntime s1 = detectedRuntime s"
      using devs(4) Inr by auto
    show thesis
    proof (cases "access_result env (length (trace s2)) ?ws")
      case (IoErr m)
      from run rr Inr uu IoErr
      have "s' = emit (EvAccess ?ws (IoErr m)) s2"
        "res = Inr (error_result (''Error: Workspace path not found: '' @ ?ws) (- 32602)
           (''Workspace path not found: '' @ ?ws))"
        by (simp_all add: deploy_try_def fs_access_def Let_def)
      with devs rtf show thesis
        by (intro no_workspace[of devs rt u m]) (auto simp: s2_def emit_def)
    next
      case IoOk
      define s3 where "s3 = emit (EvAccess ?ws IoOk) s2"
      have ac: "fs_access env ?ws s2 = (Inr (), s3)"
        using IoOk by (simp add: fs_access_def Let_def s3_def)
      have s3: "trace s3 = trace s @ devs @ [EvUuid u, EvAccess ?ws IoOk]" "files s3 = files s"
        "detectedRuntime s3 = detectedRuntime s1"
        using devs by (simp_all add: s3_def s2_def emit_def)
      show thesis
      proof (cases "truthy_int (params_port params)")
        case False
        obtain ares s4 where gr: "getRandomPort env s3 = (ares, s4)" by (meson surj_pair)
        show thesis
        proof (cases ares)
          case (Inl e)
          from run rr Inr uu ac False gr Inl have "s' = s4" "res = Inl e"
            by (simp_all add: deploy_try_def Let_def)
          with devs rtf s3 gr Inl False show thesis
            by (intro no_port_failed[of devs rt s3 u e]) auto
        next
          case inr: (Inr port)
          from run rr Inr uu ac False gr inr
          have "deploy_launch env params rt (take 8 u) ?inst ?ws port s4 = (res, s')"
            by (simp add: deploy_try_def Let_def)
          with devs rtf s3 gr inr False show thesis
            by (intro no_port[of devs rt s3 u port s4]) auto
        qed
      next
        case True
        obtain cres s4 where cp: "checkPortAvailability env ?P s3 = (cres, s4)"
          by (meson surj_pair)
        from checkPortAvailability_cases[OF cp]
        consider (bad) "cres = Inl (Error (bad_port_message env ?P))" "s4 = s3"
          | (probed) out where "s4 = emit (EvListen ?P out) s3"
              "cres = Inr (out \<noteq> ErrorEvent ''EADDRINUSE'')"
          by blast
        then show thesis
        proof cases
          case bad
          from run rr Inr uu ac True cp bad
          have "s' = s3" "res = Inl (Error (bad_port_message env ?P))"
            by (simp_all add: deploy_try_def Let_def)
          with devs rtf s3 True show thesis
            by (intro bad_port[of devs rt u]) auto
        next
          case probed
          have s4: "trace s4 = trace s @ devs @ [EvUuid u, EvAccess ?ws IoOk, EvListen ?P out]"
            "files s4 = files s" "detectedRuntime s4 = detectedRuntime s1"
            using s3 by (simp_all add: probed emit_def)
          show thesis
          proof (cases "out = ErrorEvent ''EADDRINUSE''")
            case busy: True
            obtain ares s5 where gr: "getRandomPort env s4 = (ares, s5)" by (meson surj_pair)
            from run rr Inr uu ac True cp probed busy gr
            have "s' = s5" "res = (case ares of Inl e \<Rightarrow> Inl e
              | Inr alternativePort \<Rightarrow> Inr (port_in_use_result ?P alternativePort))"
              by (auto simp: deploy_try_def Let_def split: sum.splits)
            with devs rtf s4 True gr busy show thesis
              by (intro port_busy[of devs rt s4 u ares]) auto
          next
            case False
            from run rr Inr uu ac True cp probed False
            have "deploy_launch env params rt (take 8 u) ?inst ?ws ?P s4 = (res, s')"
              by (simp add: deploy_try_def Let_def)
            with devs rtf s4 True False show thesis
              by (intro port_free[of devs rt s4 out u]) auto
          qed
        qed
      qed
    qed
  qed
qed

lemma getRandomPort_loop_cases:
  assumes "random_ok env" "getRandomPort_loop env attempt s = (res, s')"
  shows "\<exists>evs. trace s' = trace s @ evs
           \<and> (case res of
                Inr port \<Rightarrow> 10000 \<le> port \<and> port \<le> 65535
                  \<and> length (probes evs) \<le> maxAttempts - attempt
                  \<and> (\<exists>out. probes evs \<noteq> [] \<and> last (probes evs) = (port, out)
                         \<and> out \<noteq> ErrorEvent ''EADDRINUSE'')
              | Inl e \<Rightarrow> e = Error ''Could not find an available port after multiple attempts''
                  \<and> length (probes evs) = maxAttempts - attempt
                  \<and> list_all (\<lambda>(p, out). out = ErrorEvent ''EADDRINUSE'') (probes evs))"
  using assms
proof (induction env attempt s arbitrary: res s' rule: getRandomPort_loop.induct)
  case (1 env attempt s)
  show ?case
  proof (cases "attempt < maxAttempts")
    case False
    with "1.prems"(2)
    have "res = Inl (Error ''Could not find an available port after multiple attempts'')"
      "s' = s"
      by (simp_all add: getRandomPort_loop.simps)
    with False show ?thesis by auto
  next
    case True
    define r where "r = random_result env (length (trace s))"
    define s1 where "s1 = emit (EvRandom r) s"
    define port where "port = \<lfloor>r * of_int (maxPort - minPort + 1)\<rfloor> + minPort"
    have mr: "Math_random env s = (r, s1)"
      by (simp add: Math_random_def Let_def r_def s1_def)
    have r01: "0 \<le> r" "r < 1" using "1.prems"(1) by (auto simp: random_ok_def r_def)
    have range: "10000 \<le> port" "port \<le> 65535"
      using candidate_range[OF r01] by (simp_all add: port_def)
    define out where "out = listen_result env (length (trace s1)) port"
    define s2 where "s2 = emit (EvListen port out) s1"
    have cp: "checkPortAvailability env port s1 = (Inr (out \<noteq> ErrorEvent ''EADDRINUSE''), s2)"
      using range
      by (auto simp: checkPortAvailability_def Let_def out_def s2_def split: bind_outcome.splits)
    show ?thesis
    proof (cases "out = ErrorEvent ''EADDRINUSE''")
      case False
      have "getRandomPort_loop env attempt s = (Inr port, s2)"
        using True mr cp False
        by (subst getRandomPort_loop.simps) (simp add: port_def Let_def)
      with "1.prems"(2) have "res = Inr port" "s' = s2" by simp_all
      then show ?thesis
        using range False True
        by (auto simp: s2_def s1_def emit_def intro!: exI[of _ "[EvRandom r, EvListen port out]"])
    next
      case busy: True
      have step: "getRandomPort_loop env attempt s = getRandomPort_loop env (attempt + 1) s2"
        using True mr cp busy
        by (subst getRandomPort_loop.simps) (simp add: port_def Let_def)
      with "1.prems"(2) have rec: "getRandomPort_loop env (attempt + 1) s2 = (res, s')" by simp
      from "1.IH"[OF True mr[symmetric] port_def cp[symmetric] refl _ "1.prems"(1) rec] busy
      obtain evs where evs: "trace s' = trace s2 @ evs"
          "(case res of
                Inr port \<Rightarrow> 10000 \<le> port \<and> port \<le> 65535
                  \<and> length (probes evs) \<le> maxAttempts - (attempt + 1)
                  \<and> (\<exists>out. probes evs \<noteq> [] \<and> last (probes evs) = (port, out)
                         \<and> out \<noteq> ErrorEvent ''EADDRINUSE'')
              | Inl e \<Rightarrow> e = Error ''Could not find an available port after multiple attempts''
                  \<and> length (probes evs) = maxAttempts - (attempt + 1)
                  \<and> list_all (\<lambda>(p, out). out = ErrorEvent ''EADDRINUSE'') (probes evs))"
        by auto
      show ?thesis
        using evs True busy
        by (intro exI[of _ "[EvRandom r, EvListen port out] @ evs"])
           (auto simp: s2_def s1_def emit_def probes_append split: sum.splits)
    qed
  qed
qed

lemma getRandomPort_cases:
  assumes "random_ok env" "getRandomPort env s = (res, s')"
  shows "case res of
           Inr port \<Rightarrow> 10000 \<le> port \<and> port \<le> 65535
             \<and> length (probes (new_events s s')) \<le> 10
             \<and> (\<exists>out. probes (new_events s s') \<noteq> []
                    \<and> last (probes (new_events s s')) = (port, out)
                    \<and> out \<noteq> ErrorEvent ''EADDRINUSE'')
         | Inl e \<Rightarrow> e = Error ''Could not find an available port after multiple attempts''
             \<and> length (probes (new_events s s')) = 10
             \<and> list_all (\<lambda>(p, out). out = ErrorEvent ''EADDRINUSE'') (probes (new_events s s'))"
proof -
  from assms(2) have "getRandomPort_loop env 0 s = (res, s')"
    by (simp add: getRandomPort_def)
  from getRandomPort_loop_cases[OF assms(1) this] show ?thesis
    by (auto simp: maxAttempts_def split: sum.splits)
qed

lemmas eval_defs =
  deployVSCodeInstance_def deploy_try_def deploy_launch_def detectContainerRuntime_def
  detect_podman_def checkPortAvailability_def getRandomPort_def getRandomPort_loop.simps
  execAsync_def uuidv4_def Math_random_def toISOString_now_def fs_access_def fs_mkdir_def
  fs_writeFile_def fs_unlink_def emit_def Let_def truthy_str_def truthy_int_def
  str_value_def int_value_def js_or_def CONTAINER_RUNTIME_def DEFAULT_PASSWORD_def
  DEFAULT_EXTENSIONS_def DEFAULT_CPU_LIMIT_def DEFAULT_MEMORY_LIMIT_def
  instancesDir_def configPath_def maxAttempts_def minPort_def maxPort_def
  is_space_def general_space_def new_events_def resolved_password_def

lemma random_ok_env_ok: "random_ok env_ok"
  by (simp add: random_ok_def env_ok_def)

lemma random_ok_env_busy: "random_ok env_busy"
  by (simp add: random_ok_def env_busy_def env_ok_def)

text \<open>
  C6. The prober answers false exactly when the bind fails with the code of an address
  in use, and true both when the bind succeeds and when it fails with any other code. A
  bind is attempted for every port of 0 to 65535; for any other number the listen call
  throws before binding and the prober gives no answer.
\<close>

theorem checkPortAvailability_fail_open:
  "(fst (checkPortAvailability env port s) = Inr False \<longleftrightarrow>
      0 \<le> port \<and> port \<le> 65535
      \<and> listen_result env (length (trace s)) port = ErrorEvent ''EADDRINUSE'')
   \<and> (fst (checkPortAvailability env port s) = Inr True \<longleftrightarrow>
      0 \<le> port \<and> port \<le> 65535
      \<and> (listen_result env (length (trace s)) port = Listening
          \<or> (\<exists>code. listen_result env (length (trace s)) port = ErrorEvent code
                \<and> code \<noteq> ''EADDRINUSE'')))"
  by (auto simp: checkPortAvailability_def Let_def split: bind_outcome.splits)

theorem checkPortAvailability_fail_open_witness:
  "fst (checkPortAvailability env_busy 12345 state_init) = Inr False
   \<and> fst (checkPortAvailability env_ok 12345 state_init) = Inr True
   \<and> fst (checkPortAvailability
        (env_ok\<lparr>listen_result := (\<lambda>t p. ErrorEvent ''EACCES'')\<rparr>) 12345 state_init) = Inr True"
  using checkPortAvailability_fail_open [of env_busy 12345 state_init]
    checkPortAvailability_fail_open [of env_ok 12345 state_init]
    checkPortAvailability_fail_open
      [of "env_ok\<lparr>listen_result := (\<lambda>t p. ErrorEvent ''EACCES'')\<rparr>" 12345 state_init]
  by (simp add: env_busy_def env_ok_def state_init_def)

text \<open>
  C3. Given that \<^verbatim>\<open>Math.random()\<close> answers within its interval, the allocator either
  returns a port of 10000 to 65535, the last of at most 10 probes and one that was not
  reported busy, or throws the error of exhaustion after exactly 10 probes, every one of
  them reported busy. There is no third outcome.
\<close>

theorem getRandomPort_bounded:
  assumes "random_ok env"
  shows "(\<exists>port s'. getRandomPort env s = (Inr port, s')
            \<and> 10000 \<le> port \<and> port \<le> 65535
            \<and> length (probes (new_events s s')) \<le> 10
            \<and> (\<exists>out. last (probes (new_events s s')) = (port, out)
                   \<and> out \<noteq> ErrorEvent ''EADDRINUSE''))
       \<or> (\<exists>s'. getRandomPort env s =
              (Inl (Error ''Could not find an available port after multiple attempts''), s')
            \<and> length (probes (new_events s s')) = 10
            \<and> list_all (\<lambda>(p, out). out = ErrorEvent ''EADDRINUSE'')
                 (probes (new_events s s')))"
proof -
  obtain res s' where run: "getRandomPort env s = (res, s')" by (meson surj_pair)
  from getRandomPort_cases[OF assms run] run show ?thesis
    by (cases res) auto
qed

theorem getRandomPort_bounded_witness:
  "random_ok env_busy
   \<and> getRandomPort env_ok state_init =
       (Inr 37768, state_init\<lparr>trace := [EvRandom (1 / 2), EvListen 37768 Listening]\<rparr>)
   \<and> fst (getRandomPort env_busy state_init) =
       Inl (Error ''Could not find an available port after multiple attempts'')
   \<and> length (probes (new_events state_init (snd (getRandomPort env_busy state_init)))) = 10"
proof -
  have ok: "getRandomPort env_ok state_init =
       (Inr 37768, state_init\<lparr>trace := [EvRandom (1 / 2), EvListen 37768 Listening]\<rparr>)"
    by (simp add: eval_defs env_ok_def state_init_def)
  have "\<not> (\<exists>port s'. getRandomPort env_busy state_init = (Inr port, s'))"
    by (simp add: eval_defs env_busy_def env_ok_def state_init_def)
  with getRandomPort_bounded [OF random_ok_env_busy, of state_init] ok random_ok_env_busy
  show ?thesis by auto
qed

section \<open>The paths of a provisioning call\<close>

lemma deploy_paths [consumes 1, case_names rejected no_runtime no_workspace bad_port
    port_busy no_port_failed launched]:
  assumes run: "deployVSCodeInstance env params s = (res, s')"
  obtains
    (rejected) tx msg where
      "\<not> (truthy_str (params_name params) \<and> truthy_str (params_workspace_path params))"
      "s' = s" "res = Inr (error_result tx (- 32602) msg)"
  | (no_runtime) e where
      "\<not> truthy_str (params_runtime params)"
      "detectContainerRuntime env s = (Inl e, s')"
      "res = Inr (error_result (''Error: '' @ message e) (- 32603) (message e))"
  | (no_workspace) devs u m where
      "list_all is_detect_event devs"
      "truthy_str (params_runtime params) \<Longrightarrow> devs = [] \<and> detectedRuntime s' = detectedRuntime s"
      "trace s' = trace s @ devs @
         [EvUuid u,
          EvAccess (path_resolve env (str_value (params_workspace_path params))) (IoErr m)]"
      "files s' = files s"
      "res = Inr (error_result
         (''Error: Workspace path not found: ''
            @ path_resolve env (str_value (params_workspace_path params)))
         (- 32602)
         (''Workspace path not found: ''
            @ path_resolve env (str_value (params_workspace_path params))))"
  | (bad_port) devs u where
      "list_all is_detect_event devs"
      "truthy_str (params_runtime params) \<Longrightarrow> devs = [] \<and> detectedRuntime s' = detectedRuntime s"
      "truthy_int (params_port params)"
      "trace s' = trace s @ devs @
         [EvUuid u,
          EvAccess (path_resolve env (str_value (params_workspace_path params))) IoOk]"
      "files s' = files s"
      "res = Inr (caught_result
         (Error (bad_port_message env (int_value (params_port params)))))"
  | (port_busy) devs u s4 ares where
      "list_all is_detect_event devs"
      "truthy_str (params_runtime params) \<Longrightarrow> devs = [] \<and> detectedRuntime s4 = detectedRuntime s"
      "truthy_int (params_port params)"
      "trace s4 = trace s @ devs @
         [EvUuid u,
          EvAccess (path_resolve env (str_value (params_workspace_path params))) IoOk,
          EvListen (int_value (params_port params)) (ErrorEvent ''EADDRINUSE'')]"
      "files s4 = files s"
      "getRandomPort env s4 = (ares, s')"
      "res = Inr (case ares of Inl e \<Rightarrow> caught_result e
              | Inr alternativePort \<Rightarrow>
                  port_in_use_result (int_value (params_port params)) alternativePort)"
  | (no_port_failed) devs u s3 e where
      "list_all is_detect_event devs"
      "truthy_str (params_runtime params) \<Longrightarrow> devs = [] \<and> detectedRuntime s3 = detectedRuntime s"
      "\<not> truthy_int (params_port params)"
      "trace s3 = trace s @ devs @
         [EvUuid u,
          EvAccess (path_resolve env (str_value (params_workspace_path params))) IoOk]"
      "files s3 = files s"
      "getRandomPort env s3 = (Inl e, s')"
      "res = Inr (caught_result e)"
  | (launched) rt devs u pevs port s4 lres where
      "list_all is_detect_event devs" "list_all is_probe_event pevs"
      "truthy_str (params_runtime params) \<Longrightarrow>
         rt = str_value (params_runtime params) \<and> devs = []
         \<and> detectedRuntime s4 = detectedRuntime s"
      "truthy_int (params_port params) \<Longrightarrow>
         port = int_value (params_port params)
         \<and> (\<exists>out. pevs = [EvListen port out] \<and> out \<noteq> ErrorEvent ''EADDRINUSE'')"
      "trace s4 = trace s @ devs @
         [EvUuid u,
          EvAccess (path_resolve env (str_value (params_workspace_path params))) IoOk] @ pevs"
      "files s4 = files s"
      "deploy_launch env params rt (take 8 u)
         (''vscode-'' @ str_value (params_name params) @ ''-'' @ take 8 u)
         (path_resolve env (str_value (params_workspace_path params))) port s4 = (lres, s')"
      "res = Inr (case lres of Inl e \<Rightarrow> caught_result e | Inr r \<Rightarrow> r)"
proof (cases "truthy_str (params_name params) \<and> truthy_str (params_workspace_path params)")
  case False
  with run show thesis
    by (auto simp: deployVSCodeInstance_def intro: rejected split: if_splits)
next
  case True
  obtain tres where tr: "deploy_try env params s = (tres, s')"
    and res: "res = Inr (case tres of Inl e \<Rightarrow> caught_result e | Inr r \<Rightarrow> r)"
    using run True
    by (auto simp: deployVSCodeInstance_def split: prod.splits sum.splits)
  from tr show thesis
  proof (cases rule: deploy_try_cases)
    case (no_runtime e)
    with res show thesis by (intro that(2)[of e]) auto
  next
    case (no_workspace rt devs u m)
    with res show thesis by (intro that(3)[of devs u m]) auto
  next
    case (bad_port rt devs u)
    with res show thesis by (intro that(4)[of devs u]) auto
  next
    case (port_busy rt devs u s4 ares)
    with res show thesis by (intro that(5)[of devs s4 u ares]) (auto split: sum.splits)
  next
    case (port_free rt devs u out s4)
    with res show thesis
      by (intro that(7)[of devs "[EvListen (int_value (params_port params)) out]" rt s4
            "int_value (params_port params)" u tres]) auto
  next
    case (no_port_failed rt devs u s3 e)
    with res show thesis by (intro that(6)[of devs s3 u e]) auto
  next
    case (no_port rt devs u s3 port s4)
    from getRandomPort_frame[OF no_port(6)] obtain pevs where
      "trace s4 = trace s3 @ pevs" "list_all is_probe_event pevs" "files s4 = files s3"
      "detectedRuntime s4 = detectedRuntime s3"
      by blast
    with no_port res show thesis
      by (intro that(7)[of devs pevs rt s4 port u tres]) auto
  qed
qed

lemma is_error_descriptor_error_result [simp]: "is_error_descriptor (error_result text code msg)"
  by (simp add: is_error_descriptor_def error_result_def text_content_def)

lemma is_error_descriptor_port_error_result [simp]:
  "is_error_descriptor (port_error_result text code msg alt)"
  by (simp add: is_error_descriptor_def port_error_result_def text_content_def)

lemma is_success_descriptor_success_result [simp]:
  "is_success_descriptor (success_result rt name ident inst port ws pw)"
  by (simp add: is_success_descriptor_def success_result_def text_content_def)

lemma result_shapes [simp]:
  "is_error_descriptor (caught_result e)"
  "is_error_descriptor (launch_failed_result rt m)"
  "is_error_descriptor not_started_result"
  "is_error_descriptor (port_in_use_result p alt)"
  "is_error_descriptor (port_allocated_result p alt)"
  by (simp_all add: caught_result_def launch_failed_result_def not_started_result_def
        port_in_use_result_def port_allocated_result_def)

text \<open>
  C9. Whatever the parameters and whatever the platform answers, the function does not
  throw: it returns a result object with a \<^verbatim>\<open>content\<close> array that is either an error
  descriptor, with a numeric code and a message, or a success descriptor.
\<close>

theorem deployVSCodeInstance_never_throws:
  "\<exists>r s'. deployVSCodeInstance env params s = (Inr r, s')
     \<and> (is_error_descriptor r \<or> is_success_descriptor r)"
proof -
  obtain res s' where run: "deployVSCodeInstance env params s = (res, s')"
    by (meson surj_pair)
  from run have "\<exists>r. res = Inr r \<and> (is_error_descriptor r \<or> is_success_descriptor r)"
  proof (cases rule: deploy_paths)
    case (launched rt devs u pevs port s4 lres)
    from launched(7) show ?thesis
      by (cases rule: deploy_launch_cases) (auto simp: launched(8) split: sum.splits)
  qed (auto split: sum.splits)
  with run show ?thesis by auto
qed

lemma deploy_events [consumes 1, case_names rejected no_runtime no_workspace bad_port
    port_busy no_port_failed mkdir_failed write_failed launch_failed collision status_threw
    status_read]:
  fixes env params
  defines "ws \<equiv> path_resolve env (str_value (params_workspace_path params))"
    and "inst \<equiv> (\<lambda>u. ''vscode-'' @ str_value (params_name params) @ ''-'' @ take 8 u)"
    and "P \<equiv> int_value (params_port params)"
  assumes run: "deployVSCodeInstance env params s = (res, s')"
  obtains
    (rejected) tx msg where
      "\<not> (truthy_str (params_name params) \<and> truthy_str (params_workspace_path params))"
      "new_events s s' = []" "s' = s" "res = Inr (error_result tx (- 32602) msg)"
  | (no_runtime) devs e where
      "\<not> truthy_str (params_runtime params)"
      "list_all is_detect_event devs" "new_events s s' = devs" "files s' = files s"
      "res = Inr (error_result (''Error: '' @ message e) (- 32603) (message e))"
  | (no_workspace) devs u m where
      "list_all is_detect_event devs"
      "truthy_str (params_runtime params) \<Longrightarrow> devs = []"
      "new_events s s' = devs @ [EvUuid u, EvAccess ws (IoErr m)]"
      "files s' = files s"
      "res = Inr (error_result (''Error: Workspace path not found: '' @ ws) (- 32602)
         (''Workspace path not found: '' @ ws))"
  | (bad_port) devs u where
      "list_all is_detect_event devs"
      "truthy_str (params_runtime params) \<Longrightarrow> devs = []"
      "truthy_int (params_port params)"
      "new_events s s' = devs @ [EvUuid u, EvAccess ws IoOk]"
      "files s' = files s"
      "res = Inr (caught_result (Error (bad_port_message env P)))"
  | (port_busy) devs u pevs s4 ares where
      "list_all is_detect_event devs"
      "truthy_str (params_runtime params) \<Longrightarrow> devs = []"
      "truthy_int (params_port params)"
      "new_events s s' = devs @
         [EvUuid u, EvAccess ws IoOk, EvListen P (ErrorEvent ''EADDRINUSE'')] @ pevs"
      "list_all is_probe_event pevs" "new_events s4 s' = pevs"
      "getRandomPort env s4 = (ares, s')"
      "files s' = files s"
      "res = Inr (case ares of Inl e \<Rightarrow> caught_result e
              | Inr alternativePort \<Rightarrow> port_in_use_result P alternativePort)"
  | (no_port_failed) devs u pevs s3 e where
      "list_all is_detect_event devs"
      "truthy_str (params_runtime params) \<Longrightarrow> devs = []"
      "\<not> truthy_int (params_port params)"
      "new_events s s' = devs @ [EvUuid u, EvAccess ws IoOk] @ pevs"
      "list_all is_probe_event pevs" "new_events s3 s' = pevs"
      "getRandomPort env s3 = (Inl e, s')"
      "files s' = files s"
      "res = Inr (caught_result e)"
  | (mkdir_failed) rt devs u pevs port m where
      "resolved_by params rt devs pevs port"
      "new_events s s' = devs @ [EvUuid u, EvAccess ws IoOk] @ pevs @
         [EvMkdir (instancesDir env) (IoErr m)]"
      "files s' = files s"
      "res = Inr (caught_result (Error m))"
  | (write_failed) rt devs u pevs port t m where
      "resolved_by params rt devs pevs port"
      "new_events s s' = devs @ [EvUuid u, EvAccess ws IoOk] @ pevs @
         [EvMkdir (instancesDir env) IoOk, EvNow t,
          EvWriteFile (configPath env (inst u))
            (instanceConfig env params (take 8 u) (inst u) ws port t) (IoErr m)]"
      "files s' = files s"
      "res = Inr (caught_result (Error m))"
  | (launch_failed) rt devs u pevs port t m where
      "resolved_by params rt devs pevs port"
      "\<not> str_includes m ''port is already allocated''"
      "new_events s s' = devs @ [EvUuid u, EvAccess ws IoOk] @ pevs @
         [EvMkdir (instancesDir env) IoOk, EvNow t,
          EvWriteFile (configPath env (inst u))
            (instanceConfig env params (take 8 u) (inst u) ws port t) IoOk,
          EvExec Launch (containerCommand env params rt (inst u) ws port) (ExecErr m)]"
      "files s' = (files s)(configPath env (inst u) \<mapsto>
         instanceConfig env params (take 8 u) (inst u) ws port t)"
      "res = Inr (launch_failed_result rt m)"
  | (collision) rt devs u pevs port t m out pevs2 s5 ares where
      "resolved_by params rt devs pevs port"
      "str_includes m ''port is already allocated''"
      "new_events s s' = devs @ [EvUuid u, EvAccess ws IoOk] @ pevs @
         [EvMkdir (instancesDir env) IoOk, EvNow t,
          EvWriteFile (configPath env (inst u))
            (instanceConfig env params (take 8 u) (inst u) ws port t) IoOk,
          EvExec Launch (containerCommand env params rt (inst u) ws port) (ExecErr m),
          EvUnlink (configPath env (inst u)) out] @ pevs2"
      "list_all is_probe_event pevs2" "new_events s5 s' = pevs2"
      "getRandomPort env s5 = (ares, s')"
      "files s' = (case out of
           IoOk \<Rightarrow> (files s)(configPath env (inst u) := None)
         | IoErr um \<Rightarrow> (files s)(configPath env (inst u) \<mapsto>
             instanceConfig env params (take 8 u) (inst u) ws port t))"
      "res = Inr (case ares of Inl e \<Rightarrow> caught_result e
              | Inr alternativePort \<Rightarrow> port_allocated_result port alternativePort)"
  | (status_threw) rt devs u pevs port t out m where
      "resolved_by params rt devs pevs port"
      "new_events s s' = devs @ [EvUuid u, EvAccess ws IoOk] @ pevs @
         [EvMkdir (instancesDir env) IoOk, EvNow t,
          EvWriteFile (configPath env (inst u))
            (instanceConfig env params (take 8 u) (inst u) ws port t) IoOk,
          EvExec Launch (containerCommand env params rt (inst u) ws port) (ExecOk out),
          EvExec Status (status_command rt (inst u)) (ExecErr m)]"
      "files s' = (files s)(configPath env (inst u) \<mapsto>
         instanceConfig env params (take 8 u) (inst u) ws port t)"
      "res = Inr (caught_result (Error m))"
  | (status_read) rt devs u pevs port t out st where
      "resolved_by params rt devs pevs port"
      "new_events s s' = devs @ [EvUuid u, EvAccess ws IoOk] @ pevs @
         [EvMkdir (instancesDir env) IoOk, EvNow t,
          EvWriteFile (configPath env (inst u))
            (instanceConfig env params (take 8 u) (inst u) ws port t) IoOk,
          EvExec Launch (containerCommand env params rt (inst u) ws port) (ExecOk out),
          EvExec Status (status_command rt (inst u)) (ExecOk st)]"
      "files s' = (files s)(configPath env (inst u) \<mapsto>
         instanceConfig env params (take 8 u) (inst u) ws port t)"
      "res = Inr (if trim_is_empty st then not_started_result
              else success_result rt (str_value (params_name params)) (take 8 u) (inst u)
                     port ws (resolved_password env params))"
  using run
proof (cases rule: deploy_paths)
  case (rejected tx msg)
  then show thesis by (intro that(1)[of tx msg]) (auto simp: new_events_def)
next
  case (no_runtime e)
  from detectContainerRuntime_frame[OF no_runtime(2)] obtain devs where
    "trace s' = trace s @ devs" "list_all is_detect_event devs" "files s' = files s"
    by blast
  with no_runtime show thesis by (intro that(2)[of devs e]) auto
next
  case (no_workspace devs u m)
  then show thesis by (intro that(3)[of devs u m]) (auto simp: ws_def)
next
  case (bad_port devs u)
  then show thesis by (intro that(4)[of devs u]) (auto simp: ws_def P_def)
next
  case (port_busy devs u s4 ares)
  from getRandomPort_frame[OF port_busy(6)] obtain pevs where
    "trace s' = trace s4 @ pevs" "list_all is_probe_event pevs" "files s' = files s4"
    by blast
  with port_busy show thesis
    by (intro that(5)[of devs u pevs s4 ares]) (auto simp: ws_def P_def split: sum.splits)
next
  case (no_port_failed devs u s3 e)
  from getRandomPort_frame[OF no_port_failed(6)] obtain pevs where
    "trace s' = trace s3 @ pevs" "list_all is_probe_event pevs" "files s' = files s3"
    by blast
  with no_port_failed show thesis
    by (intro that(6)[of devs u pevs s3 e]) (auto simp: ws_def P_def)
next
  case (launched rt devs u pevs port s4 lres)
  have rb: "resolved_by params rt devs pevs port"
    using launched(1-4) by (auto simp: resolved_by_def)
  note pre = launched(5,6,8)
  from launched(7) show thesis
  proof (cases rule: deploy_launch_cases)
    case (mkdir_failed m)
    with rb pre show thesis
      by (intro that(7)[of rt devs pevs port u m]) (auto simp: ws_def inst_def)
  next
    case (write_failed t m)
    with rb pre show thesis
      by (intro that(8)[of rt devs pevs port u t m]) (auto simp: ws_def inst_def)
  next
    case (launch_failed t m)
    with rb pre show thesis
      by (intro that(9)[of rt devs pevs port m u t]) (auto simp: ws_def inst_def)
  next
    case (collision t m out s5 ares)
    from getRandomPort_frame[OF collision(5)] obtain pevs2 where
      "trace s' = trace s5 @ pevs2" "list_all is_probe_event pevs2" "files s' = files s5"
      by blast
    with rb pre collision show thesis
      by (intro that(10)[of rt devs pevs port m u t out pevs2 s5 ares])
         (auto simp: ws_def inst_def split: sum.splits io_outcome.splits)
  next
    case (status_threw t out m)
    with rb pre show thesis
      by (intro that(11)[of rt devs pevs port u t out m]) (auto simp: ws_def inst_def)
  next
    case (status_read t out st)
    with rb pre show thesis
      by (intro that(12)[of rt devs pevs port u t out st]) (auto simp: ws_def inst_def)
  qed
qed

lemma not_in_detect_events [simp]:
  "list_all is_detect_event evs \<Longrightarrow> \<not> is_detect_event e \<Longrightarrow> e \<in> set evs \<longleftrightarrow> False"
  by (auto simp: list_all_iff)

lemma not_in_probe_events [simp]:
  "list_all is_probe_event evs \<Longrightarrow> \<not> is_probe_event e \<Longrightarrow> e \<in> set evs \<longleftrightarrow> False"
  by (auto simp: list_all_iff)

lemma probes_detect_events [simp]: "list_all is_detect_event evs \<Longrightarrow> probes evs = []"
  by (induction evs rule: probes.induct) auto

lemma string_of_int_12345: "string_of_int 12345 = ''12345''"
  by (simp add: string_of_int_def string_of_nat.simps digit_def)

lemma trim_is_empty_samples:
  "trim_is_empty []" "trim_is_empty '' ''" "trim_is_empty [CHR 0x0A]"
  "trim_is_empty [CHR 0xC2, CHR 0xA0, CHR 0x0A]"
  "\<not> trim_is_empty ''Up 2 seconds''"
  by (simp_all add: is_space_def general_space_def)

text \<open>
  C8, as the code has it. For the parameters \<^verbatim>\<open>{name: "demo", workspace_path:
  "/tmp/ws", port: 12345, password: ""}\<close>, a call whose launch command succeeds and whose
  status query answers with a text that is not empty after trimming, that is, a text
  with a character that is neither white space nor a line terminator, returns a success
  descriptor with \<^verbatim>\<open>passwordless\<close> true, \<^verbatim>\<open>port\<close> 12345 and \<^verbatim>\<open>url\<close>
  \<^verbatim>\<open>http://localhost:12345\<close>; when the status is empty or white space only, the call
  returns the error \<^verbatim>\<open>Failed to start VSCode instance\<close>. A call gets as far as the
  launch only with a runtime resolved, the workspace path found and the port probed free.
\<close>

theorem demo_scenario_succeeds:
  assumes spec: "params_name params = Some ''demo''"
      "params_workspace_path params = Some ''/tmp/ws''"
      "params_port params = Some 12345" "params_password params = Some []"
    and run: "deployVSCodeInstance env params s = (res, s')"
    and launch: "EvExec Launch cmd (ExecOk out) \<in> set (new_events s s')"
    and status: "EvExec Status cmd' (ExecOk st) \<in> set (new_events s s')"
  shows "(\<not> trim_is_empty st \<longrightarrow>
           (\<exists>r. res = Inr r \<and> is_success_descriptor r
              \<and> jget ''passwordless'' r = Some (JBool True)
              \<and> jget ''port'' r = Some (JNum 12345)
              \<and> jget ''url'' r = Some (JStr ''http://localhost:12345'')))
       \<and> (trim_is_empty st \<longrightarrow> res = Inr not_started_result)"
  using run
proof (cases rule: deploy_events)
  case (status_read rt devs u pevs port t out' st')
  from status_read(1) spec(3) have port: "port = 12345" 
    and lists: "list_all is_detect_event devs" "list_all is_probe_event pevs"
    by (auto simp: resolved_by_def truthy_int_def int_value_def)
  from status status_read(2) lists have "st' = st" by auto
  with status_read(4) spec(4) port show ?thesis
    by (simp add: success_result_def resolved_password_def string_of_int_12345
          is_success_descriptor_def text_content_def)
qed (use status launch in \<open>auto simp: resolved_by_def\<close>)

theorem demo_scenario_succeeds_witness:
  "\<exists>r. fst (deployVSCodeInstance env_ok params_demo state_init) = Inr r
     \<and> is_success_descriptor r
     \<and> jget ''passwordless'' r = Some (JBool True)
     \<and> jget ''port'' r = Some (JNum 12345)
     \<and> jget ''url'' r = Some (JStr ''http://localhost:12345'')"
proof -
  let ?run = "deployVSCodeInstance env_ok params_demo state_init"
  have launch: "EvExec Launch
      (containerCommand env_ok params_demo ''docker'' ''vscode-demo-1b9d6bcd'' ''/tmp/ws'' 12345)
      (ExecOk ''Up 2 seconds'') \<in> set (new_events state_init (snd ?run))"
    by (simp add: eval_defs env_ok_def params_demo_def state_init_def)
  have status: "EvExec Status (status_command ''docker'' ''vscode-demo-1b9d6bcd'')
      (ExecOk ''Up 2 seconds'') \<in> set (new_events state_init (snd ?run))"
    by (simp add: eval_defs env_ok_def params_demo_def state_init_def)
  have up: "\<not> trim_is_empty ''Up 2 seconds''"
    by (simp add: is_space_def)
  show ?thesis
    using demo_scenario_succeeds [OF _ _ _ _ prod.collapse [symmetric] launch status] up
    by (simp add: params_demo_def)
qed

section \<open>The sample calls\<close>

lemmas sample_defs =
  env_ok_def params_demo_def state_init_def record_path_def
  containerCommand_def buildContainerCommand_def string_of_int_def string_of_nat.simps
  digit_def resolved_extensions_def resolved_cpu_limit_def resolved_memory_limit_def
  resolved_environment_def

section \<open>The record file and the launch\<close>

lemma written_before_launch_detect [simp]:
  "list_all is_detect_event xs \<Longrightarrow> written_before_launch w (xs @ ys) = written_before_launch w ys"
  by (induction w xs rule: written_before_launch.induct) auto

lemma written_before_launch_probe [simp]:
  "list_all is_probe_event xs \<Longrightarrow> written_before_launch w (xs @ ys) = written_before_launch w ys"
  by (induction w xs rule: written_before_launch.induct) auto

lemma written_before_launch_detect' [simp]:
  "list_all is_detect_event xs \<Longrightarrow> written_before_launch w xs"
  using written_before_launch_detect[of xs w "[]"] by simp

lemma written_before_launch_probe' [simp]:
  "list_all is_probe_event xs \<Longrightarrow> written_before_launch w xs"
  using written_before_launch_probe[of xs w "[]"] by simp

lemma written_before_launchD:
  "written_before_launch w (pre @ EvExec Launch cmd out # post) \<Longrightarrow>
     w \<or> (\<exists>p c. EvWriteFile p c IoOk \<in> set pre)"
  by (induction w pre rule: written_before_launch.induct) auto

lemma deploy_written_before_launch:
  assumes run: "deployVSCodeInstance env params s = (res, s')"
  shows "written_before_launch False (new_events s s')"
  using run
  by (cases rule: deploy_events) (auto simp: resolved_by_def)

text \<open>
  C7. In every call the record file is written before the launch command runs: every
  launch in the events of the call is preceded by a successful write of a record file.
  When the launch fails with a message that does not report a port collision, and
  whenever the call has got as far as the status query of the startup verification,
  whatever its answer, no deletion is attempted and the record is in place, with the
  content written, when the call returns. The record written and the command launched
  are those of one and the same instance name.
\<close>

theorem record_kept_for_diagnosis:
  assumes run: "deployVSCodeInstance env params s = (res, s')"
  shows "(\<forall>pre cmd out post. new_events s s' = pre @ EvExec Launch cmd out # post \<longrightarrow>
            (\<exists>path cfg. EvWriteFile path cfg IoOk \<in> set pre))
       \<and> (\<forall>cmd m. EvExec Launch cmd (ExecErr m) \<in> set (new_events s s')
              \<and> \<not> str_includes m ''port is already allocated'' \<longrightarrow>
            (\<forall>q out. EvUnlink q out \<notin> set (new_events s s'))
            \<and> (\<exists>path cfg. EvWriteFile path cfg IoOk \<in> set (new_events s s')
                  \<and> files s' path = Some cfg))
       \<and> (\<forall>cmd out. EvExec Status cmd out \<in> set (new_events s s') \<longrightarrow>
            (\<forall>q out. EvUnlink q out \<notin> set (new_events s s'))
            \<and> (\<exists>path cfg. EvWriteFile path cfg IoOk \<in> set (new_events s s')
                  \<and> files s' path = Some cfg))
       \<and> (\<forall>path cfg wout cmd lout.
            EvWriteFile path cfg wout \<in> set (new_events s s')
            \<and> EvExec Launch cmd lout \<in> set (new_events s s') \<longrightarrow>
            (\<exists>rt ident inst ws port t. path = configPath env inst
               \<and> cfg = instanceConfig env params ident inst ws port t
               \<and> cmd = containerCommand env params rt inst ws port))"
proof -
  have same: "\<exists>rt ident inst ws port t. path = configPath env inst
               \<and> cfg = instanceConfig env params ident inst ws port t
               \<and> cmd = containerCommand env params rt inst ws port"
    if "EvWriteFile path cfg wout \<in> set (new_events s s')"
      "EvExec Launch cmd lout \<in> set (new_events s s')" for path cfg wout cmd lout
    using run that
    by (cases rule: deploy_events) (fastforce simp: resolved_by_def)+
  have ordered: "\<exists>path cfg. EvWriteFile path cfg IoOk \<in> set pre"
    if "new_events s s' = pre @ EvExec Launch cmd out # post" for pre cmd out post
    using deploy_written_before_launch[OF run] that
    by (auto dest: written_before_launchD)
  have failed: "(\<forall>q out. EvUnlink q out \<notin> set (new_events s s'))
            \<and> (\<exists>path cfg. EvWriteFile path cfg IoOk \<in> set (new_events s s')
                  \<and> files s' path = Some cfg)"
    if "EvExec Launch cmd (ExecErr m) \<in> set (new_events s s')"
      "\<not> str_includes m ''port is already allocated''" for cmd m
    using run that
    by (cases rule: deploy_events) (auto simp: resolved_by_def)
  have verified: "(\<forall>q out. EvUnlink q out \<notin> set (new_events s s'))
            \<and> (\<exists>path cfg. EvWriteFile path cfg IoOk \<in> set (new_events s s')
                  \<and> files s' path = Some cfg)"
    if "EvExec Status cmd out \<in> set (new_events s s')" for cmd out
    using run that
    by (cases rule: deploy_events) (auto simp: resolved_by_def)
  show ?thesis
  proof (intro conjI)
    show "\<forall>pre cmd out post. new_events s s' = pre @ EvExec Launch cmd out # post \<longrightarrow>
            (\<exists>path cfg. EvWriteFile path cfg IoOk \<in> set pre)"
      using ordered by blast
    show "\<forall>cmd m. EvExec Launch cmd (ExecErr m) \<in> set (new_events s s')
              \<and> \<not> str_includes m ''port is already allocated'' \<longrightarrow>
            (\<forall>q out. EvUnlink q out \<notin> set (new_events s s'))
            \<and> (\<exists>path cfg. EvWriteFile path cfg IoOk \<in> set (new_events s s')
                  \<and> files s' path = Some cfg)"
      using failed by blast
    show "\<forall>cmd out. EvExec Status cmd out \<in> set (new_events s s') \<longrightarrow>
            (\<forall>q out. EvUnlink q out \<notin> set (new_events s s'))
            \<and> (\<exists>path cfg. EvWriteFile path cfg IoOk \<in> set (new_events s s')
                  \<and> files s' path = Some cfg)"
      using verified by blast
    show "\<forall>path cfg wout cmd lout.
            EvWriteFile path cfg wout \<in> set (new_events s s')
            \<and> EvExec Launch cmd lout \<in> set (new_events s s') \<longrightarrow>
            (\<exists>rt ident inst ws port t. path = configPath env inst
               \<and> cfg = instanceConfig env params ident inst ws port t
               \<and> cmd = containerCommand env params rt inst ws port)"
      using same by (intro allI impI) (elim conjE)
  qed
qed

theorem record_kept_for_diagnosis_witness:
  "EvUnlink record_path IoOk
     \<notin> set (new_events state_init
               (snd (deployVSCodeInstance env_launch_fails params_demo state_init)))
   \<and> files (snd (deployVSCodeInstance env_launch_fails params_demo state_init)) record_path
       = Some (instanceConfig env_launch_fails params_demo ''1b9d6bcd''
                 ''vscode-demo-1b9d6bcd'' ''/tmp/ws'' 12345 ''2024-01-01T00:00:00.000Z'')"
proof -
  let ?run = "deployVSCodeInstance env_launch_fails params_demo state_init"
  let ?cfg = "instanceConfig env_launch_fails params_demo ''1b9d6bcd''
                 ''vscode-demo-1b9d6bcd'' ''/tmp/ws'' 12345 ''2024-01-01T00:00:00.000Z''"
  let ?cmd = "containerCommand env_launch_fails params_demo ''docker''
                 ''vscode-demo-1b9d6bcd'' ''/tmp/ws'' 12345"
  have evs: "new_events state_init (snd ?run) =
    [EvExec Detect ''docker --version'' (ExecOk ''Up 2 seconds''),
     EvExec Detect ''docker ps'' (ExecOk ''Up 2 seconds''),
     EvUuid ''1b9d6bcd-bbfd-4b2d-9b5d-ab8dfbbd4bed'',
     EvAccess ''/tmp/ws'' IoOk, EvListen 12345 Listening,
     EvMkdir ''/app/src/tools/../../vscode-instances'' IoOk,
     EvNow ''2024-01-01T00:00:00.000Z'',
     EvWriteFile record_path ?cfg IoOk,
     EvExec Launch ?cmd
       (ExecErr ''Unable to find image codercom/code-server:latest locally'')]"
    by (simp add: eval_defs sample_defs env_launch_fails_def)
  have launch: "EvExec Launch ?cmd
       (ExecErr ''Unable to find image codercom/code-server:latest locally'')
       \<in> set (new_events state_init (snd ?run))"
    by (simp add: evs)
  have other: "\<not> str_includes ''Unable to find image codercom/code-server:latest locally''
      ''port is already allocated''"
    by simp
  from record_kept_for_diagnosis [OF prod.collapse [symmetric]]
    launch other
  have "(\<forall>q out. EvUnlink q out \<notin> set (new_events state_init (snd ?run)))
      \<and> (\<exists>path cfg. EvWriteFile path cfg IoOk \<in> set (new_events state_init (snd ?run))
            \<and> files (snd ?run) path = Some cfg)"
    by blast
  then show ?thesis
    by (auto simp: evs)
qed

lemma detect_events_resolving [simp]:
  "list_all is_detect_event evs \<Longrightarrow> list_all is_resolving_event evs"
proof (induction evs)
  case (Cons e evs)
  then show ?case by (cases e rule: is_detect_event.cases) auto
qed simp

lemma probe_events_resolving [simp]:
  "list_all is_probe_event evs \<Longrightarrow> list_all is_resolving_event evs"
proof (induction evs)
  case (Cons e evs)
  then show ?case by (cases e rule: is_probe_event.cases) auto
qed simp

lemma not_success_descriptor [simp]:
  "\<not> is_success_descriptor (error_result tx code msg)"
  "\<not> is_success_descriptor (port_error_result tx code msg alt)"
  "\<not> is_success_descriptor (caught_result e)"
  "\<not> is_success_descriptor (launch_failed_result rt m)"
  "\<not> is_success_descriptor not_started_result"
  "\<not> is_success_descriptor (port_in_use_result p alt)"
  "\<not> is_success_descriptor (port_allocated_result p alt)"
  by (simp_all add: is_success_descriptor_def error_result_def port_error_result_def
        caught_result_def launch_failed_result_def not_started_result_def
        port_in_use_result_def port_allocated_result_def text_content_def)

lemma override_keeps_cache:
  assumes "truthy_str (params_runtime params)"
    and run: "deployVSCodeInstance env params s = (res, s')"
  shows "detectedRuntime s' = detectedRuntime s"
  using run
proof (cases rule: deploy_paths)
  case (port_busy devs u s4 ares)
  with getRandomPort_frame[OF port_busy(6)] assms(1) show ?thesis by auto
next
  case (no_port_failed devs u s3 e)
  with getRandomPort_frame[OF no_port_failed(6)] assms(1) show ?thesis by auto
next
  case (launched rt devs u pevs port s4 lres)
  from launched(7) have "detectedRuntime s' = detectedRuntime s4"
  proof (cases rule: deploy_launch_cases)
    case (collision t m out s5 ares)
    with getRandomPort_frame[OF collision(5)] show ?thesis by auto
  qed auto
  with launched(3) assms(1) show ?thesis by simp
qed (use assms(1) in auto)

lemma prefix_containerCommand:
  "prefix (rt @ '' run -d '') (containerCommand env params rt inst ws port)"
  by (simp add: containerCommand_def buildContainerCommand_def Let_def)

subsection \<open>A status of white space only\<close>

text \<open>
  The claim as stated fails: a status that is not empty but blank, here a single line
  break, passes for no status at all, and the call that met every condition of the claim
  returns the error of the failed start.
\<close>

theorem demo_scenario_counterexample:
  "new_events state_init (snd (deployVSCodeInstance env_blank_status params_demo state_init)) =
    [EvExec Detect ''docker --version'' (ExecOk ''Up 2 seconds''),
     EvExec Detect ''docker ps'' (ExecOk ''Up 2 seconds''),
     EvUuid ''1b9d6bcd-bbfd-4b2d-9b5d-ab8dfbbd4bed'',
     EvAccess ''/tmp/ws'' IoOk, EvListen 12345 Listening,
     EvMkdir ''/app/src/tools/../../vscode-instances'' IoOk,
     EvNow ''2024-01-01T00:00:00.000Z'',
     EvWriteFile record_path
       (instanceConfig env_blank_status params_demo ''1b9d6bcd'' ''vscode-demo-1b9d6bcd''
          ''/tmp/ws'' 12345 ''2024-01-01T00:00:00.000Z'') IoOk,
     EvExec Launch
       (containerCommand env_blank_status params_demo ''docker'' ''vscode-demo-1b9d6bcd''
          ''/tmp/ws'' 12345)
       (ExecOk ''Up 2 seconds''),
     EvExec Status (status_command ''docker'' ''vscode-demo-1b9d6bcd'') (ExecOk [CHR 0x0A])]
   \<and> [CHR 0x0A] \<noteq> []
   \<and> fst (deployVSCodeInstance env_blank_status params_demo state_init)
       = Inr not_started_result
   \<and> \<not> is_success_descriptor not_started_result"
  by (simp add: eval_defs sample_defs env_blank_status_def status_command_def)

subsection \<open>The content of the record\<close>




section \<open>The runtime override\<close>

text \<open>
  C2, as the code has it. An explicit runtime override is taken as it is, without any
  detection command, and is used for this call only: the launch command begins with it
  and a success result reports it, while the cache of the detected runtime is left as it
  was. A later detection therefore answers with the runtime that was cached before the
  call, whatever the override was.
\<close>

theorem runtime_override_bypasses_cache:
  assumes override: "truthy_str (params_runtime params)"
    and run: "deployVSCodeInstance env params s = (res, s')"
  shows "detectedRuntime s' = detectedRuntime s
       \<and> (\<forall>cmd out. EvExec Detect cmd out \<notin> set (new_events s s'))
       \<and> (\<forall>cmd out. EvExec Launch cmd out \<in> set (new_events s s') \<longrightarrow>
             prefix (str_value (params_runtime params) @ '' run -d '') cmd)
       \<and> (\<forall>r. res = Inr r \<and> is_success_descriptor r \<longrightarrow>
             jget ''runtime'' r = Some (JStr (str_value (params_runtime params))))
       \<and> (\<forall>env'. truthy_str (detectedRuntime s) \<longrightarrow>
             fst (detectContainerRuntime env' s') = Inr (str_value (detectedRuntime s)))"
proof -
  have later: "fst (detectContainerRuntime env' s') = Inr (str_value (detectedRuntime s))"
    if "truthy_str (detectedRuntime s)" for env'
    using that override_keeps_cache[OF override run]
    by (simp add: detectContainerRuntime_def)
  have probes: "\<forall>cmd out. EvExec Detect cmd out \<notin> set (new_events s s')"
    using run override
    by (cases rule: deploy_events) (auto simp: resolved_by_def)
  have launches: "prefix (str_value (params_runtime params) @ '' run -d '') cmd"
    if "EvExec Launch cmd out \<in> set (new_events s s')" for cmd out
    using run override that
    by (cases rule: deploy_events) (auto simp: resolved_by_def prefix_containerCommand)
  have result: "jget ''runtime'' r = Some (JStr (str_value (params_runtime params)))"
    if "res = Inr r" "is_success_descriptor r" for r
    using run override that
    by (cases rule: deploy_events)
       (auto simp: resolved_by_def success_result_def split: sum.splits if_splits)
  show ?thesis
    using override_keeps_cache[OF override run] probes launches result later by blast
qed

theorem runtime_override_bypasses_cache_witness:
  "detectedRuntime
     (snd (deployVSCodeInstance env_ok (params_demo\<lparr>params_runtime := Some ''podman''\<rparr>)
             (state_init\<lparr>detectedRuntime := Some ''docker''\<rparr>))) = Some ''docker''
   \<and> jget ''runtime''
        (projr (fst (deployVSCodeInstance env_ok
           (params_demo\<lparr>params_runtime := Some ''podman''\<rparr>)
           (state_init\<lparr>detectedRuntime := Some ''docker''\<rparr>)))) = Some (JStr ''podman'')
   \<and> fst (detectContainerRuntime env_ok
        (snd (deployVSCodeInstance env_ok (params_demo\<lparr>params_runtime := Some ''podman''\<rparr>)
                (state_init\<lparr>detectedRuntime := Some ''docker''\<rparr>)))) = Inr ''docker''"
proof -
  let ?p = "params_demo\<lparr>params_runtime := Some ''podman''\<rparr>"
  let ?s = "state_init\<lparr>detectedRuntime := Some ''docker''\<rparr>"
  let ?run = "deployVSCodeInstance env_ok ?p ?s"
  have override: "truthy_str (params_runtime ?p)"
    by (simp add: truthy_str_def)
  have res: "fst ?run = Inr (success_result ''podman'' ''demo'' ''1b9d6bcd''
      ''vscode-demo-1b9d6bcd'' 12345 ''/tmp/ws'' [])"
    by (simp add: eval_defs sample_defs)
  from runtime_override_bypasses_cache [OF override prod.collapse [symmetric]] res
  show ?thesis
    by (simp add: state_init_def str_value_def truthy_str_def)
qed

text \<open>
  The claim as stated fails: on a platform where Docker answers, a call with the override
  \<^verbatim>\<open>podman\<close> leaves the cache empty, and the detection of the next call answers
  \<^verbatim>\<open>docker\<close>.
\<close>

theorem runtime_override_counterexample:
  "detectedRuntime
     (snd (deployVSCodeInstance env_ok (params_demo\<lparr>params_runtime := Some ''podman''\<rparr>)
             state_init)) = None
   \<and> fst (detectContainerRuntime env_ok
        (snd (deployVSCodeInstance env_ok (params_demo\<lparr>params_runtime := Some ''podman''\<rparr>)
                state_init))) = Inr ''docker''"
  by (simp add: eval_defs sample_defs)

section \<open>Port conflicts\<close>

text \<open>
  C4, as the code has it. When the requested port is reported in use by the probe before
  the launch, the call ends without having created the records directory, written or
  deleted a record or run a launch or status command, and the files are as they were
  (the detection of the runtime may have run and filled its cache). Its result is the
  port conflict error with a suggested port of 10000 to 65535 that passed its own probe
  when the allocator finds one, and the general failure of the outer \<^verbatim>\<open>catch\<close>, without
  a suggestion, when the allocator gives up after its 10 probes.
\<close>

theorem requested_port_in_use:
  assumes rnd: "random_ok env"
    and req: "truthy_int (params_port params)"
    and run: "deployVSCodeInstance env params s = (res, s')"
    and busy: "probes (new_events s s') =
      (int_value (params_port params), ErrorEvent ''EADDRINUSE'') # rest"
  shows "files s' = files s \<and> list_all is_resolving_event (new_events s s')
       \<and> ((\<exists>alt out. res = Inr (port_in_use_result (int_value (params_port params)) alt)
               \<and> 10000 \<le> alt \<and> alt \<le> 65535
               \<and> rest \<noteq> [] \<and> last rest = (alt, out) \<and> out \<noteq> ErrorEvent ''EADDRINUSE'')
          \<or> (res = Inr (caught_result
                 (Error ''Could not find an available port after multiple attempts''))
               \<and> length rest = 10
               \<and> list_all (\<lambda>(p, out). out = ErrorEvent ''EADDRINUSE'') rest))"
  using run
proof (cases rule: deploy_events)
  case (port_busy devs u pevs s4 ares)
  from busy port_busy(1,4) have rest: "rest = probes pevs"
    by (simp add: probes_append)
  from getRandomPort_cases[OF rnd port_busy(7)] port_busy rest show ?thesis
    by (cases ares) auto
qed (use req busy in \<open>auto simp: resolved_by_def probes_append\<close>)

theorem requested_port_in_use_witness:
  "files (snd (deployVSCodeInstance env_port_taken params_demo state_init)) = Map.empty
   \<and> list_all is_resolving_event
        (new_events state_init (snd (deployVSCodeInstance env_port_taken params_demo state_init)))
   \<and> fst (deployVSCodeInstance env_port_taken params_demo state_init)
       = Inr (port_in_use_result 12345 37768)"
proof -
  let ?run = "deployVSCodeInstance env_port_taken params_demo state_init"
  have rnd: "random_ok env_port_taken"
    by (simp add: random_ok_def env_port_taken_def env_ok_def)
  have req: "truthy_int (params_port params_demo)"
    by (simp add: truthy_int_def params_demo_def)
  have probed: "probes (new_events state_init (snd ?run)) =
      (int_value (params_port params_demo), ErrorEvent ''EADDRINUSE'') # [(37768, Listening)]"
    by (simp add: eval_defs sample_defs env_port_taken_def)
  have res: "fst ?run = Inr (port_in_use_result 12345 37768)"
    by (simp add: eval_defs sample_defs env_port_taken_def)
  from requested_port_in_use [OF rnd req prod.collapse [symmetric] probed]
  have "files (snd ?run) = files state_init"
    "list_all is_resolving_event (new_events state_init (snd ?run))"
    by simp_all
  with res show ?thesis by (simp add: state_init_def)
qed

text \<open>
  The claim as stated fails: with every port in use the allocator gives up, the result
  carries no suggested port, and the detection has filled the runtime cache.
\<close>

theorem requested_port_in_use_counterexample:
  "probes (new_events state_init (snd (deployVSCodeInstance env_busy params_demo state_init)))
     = replicate 1 (12345, ErrorEvent ''EADDRINUSE'')
       @ replicate 10 (37768, ErrorEvent ''EADDRINUSE'')
   \<and> fst (deployVSCodeInstance env_busy params_demo state_init)
       = Inr (caught_result
           (Error ''Could not find an available port after multiple attempts''))
   \<and> suggested_port (caught_result
           (Error ''Could not find an available port after multiple attempts'')) = None
   \<and> detectedRuntime state_init = None
   \<and> detectedRuntime (snd (deployVSCodeInstance env_busy params_demo state_init))
       = Some ''docker''"
  by (simp add: eval_defs sample_defs env_busy_def suggested_port_def caught_result_def error_result_def
        numeral_eq_Suc)

text \<open>
  C1, as the code has it. When a call with a requested port gets the message of a port
  collision from the launch command, it attempts to delete the record it has just
  written: after a deletion that succeeds the file is gone, after one that fails (the
  failure is only logged) the file stays as written. What follows the deletion is the
  port allocator and nothing else. When the allocator finds a free port, the last of its
  at most 10 probes and one that was not reported busy, the result is the error
  \<^verbatim>\<open>Port P is already allocated\<close> with that port, a port of 10000 to 65535, as the
  suggestion; when the allocator gives up after exactly 10 probes, all reported busy, the
  result is the general failure of the outer \<^verbatim>\<open>catch\<close>, without a suggestion.
\<close>

theorem launch_collision_rolls_back:
  assumes rnd: "random_ok env"
    and req: "truthy_int (params_port params)"
    and run: "deployVSCodeInstance env params s = (res, s')"
    and launch: "EvExec Launch cmd (ExecErr m) \<in> set (new_events s s')"
    and allocated: "str_includes m ''port is already allocated''"
  shows "\<exists>path cfg out before after.
           new_events s s' = before @ EvUnlink path out # after
           \<and> EvWriteFile path cfg IoOk \<in> set before
           \<and> EvExec Launch cmd (ExecErr m) \<in> set before
           \<and> list_all is_probe_event after
           \<and> (out = IoOk \<longrightarrow> files s' path = None)
           \<and> (out \<noteq> IoOk \<longrightarrow> files s' path = Some cfg)
           \<and> ((\<exists>alt aout.
                  res = Inr (port_allocated_result (int_value (params_port params)) alt)
                  \<and> 10000 \<le> alt \<and> alt \<le> 65535
                  \<and> length (probes after) \<le> 10 \<and> probes after \<noteq> []
                  \<and> last (probes after) = (alt, aout)
                  \<and> aout \<noteq> ErrorEvent ''EADDRINUSE'')
              \<or> (res = Inr (caught_result
                     (Error ''Could not find an available port after multiple attempts''))
                  \<and> length (probes after) = 10
                  \<and> list_all (\<lambda>(p, out). out = ErrorEvent ''EADDRINUSE'') (probes after)))"
  using run
proof (cases rule: deploy_events)
  case (collision rt devs u pevs port t m' out pevs2 s5 ares)
  let ?ws = "path_resolve env (str_value (params_workspace_path params))"
  let ?inst = "''vscode-'' @ str_value (params_name params) @ ''-'' @ take 8 u"
  let ?path = "configPath env ?inst"
  let ?cfg = "instanceConfig env params (take 8 u) ?inst ?ws port t"
  let ?before = "devs @ [EvUuid u, EvAccess ?ws IoOk] @ pevs @
     [EvMkdir (instancesDir env) IoOk, EvNow t, EvWriteFile ?path ?cfg IoOk,
      EvExec Launch (containerCommand env params rt ?inst ?ws port) (ExecErr m')]"
  from collision(1) req have port: "port = int_value (params_port params)"
    and lists: "list_all is_detect_event devs" "list_all is_probe_event pevs"
    by (simp_all add: resolved_by_def)
  have evs: "new_events s s' = ?before @ EvUnlink ?path out # pevs2"
    using collision(3) by simp
  have launched: "EvExec Launch cmd (ExecErr m) \<in> set ?before"
    using launch evs lists collision(4) by auto
  have result: "(\<exists>alt aout.
                  res = Inr (port_allocated_result (int_value (params_port params)) alt)
                  \<and> 10000 \<le> alt \<and> alt \<le> 65535
                  \<and> length (probes pevs2) \<le> 10 \<and> probes pevs2 \<noteq> []
                  \<and> last (probes pevs2) = (alt, aout)
                  \<and> aout \<noteq> ErrorEvent ''EADDRINUSE'')
              \<or> (res = Inr (caught_result
                     (Error ''Could not find an available port after multiple attempts''))
                  \<and> length (probes pevs2) = 10
                  \<and> list_all (\<lambda>(p, out). out = ErrorEvent ''EADDRINUSE'') (probes pevs2))"
    using getRandomPort_cases[OF rnd collision(6)] collision(5,8) port
    by (cases ares) auto
  have kept: "(out = IoOk \<longrightarrow> files s' ?path = None)
      \<and> (out \<noteq> IoOk \<longrightarrow> files s' ?path = Some ?cfg)"
    using collision(7) by (auto split: io_outcome.splits)
  show ?thesis
    using evs launched collision(4) result kept
    by (intro exI[of _ ?path] exI[of _ ?cfg] exI[of _ out] exI[of _ ?before]
          exI[of _ pevs2]) simp
qed (use launch allocated in \<open>auto simp: resolved_by_def\<close>)

theorem launch_collision_rolls_back_witness:
  "files (snd (deployVSCodeInstance env_race params_demo state_init)) record_path = None
   \<and> fst (deployVSCodeInstance env_race params_demo state_init)
       = Inr (port_allocated_result 12345 37768)"
proof -
  let ?run = "deployVSCodeInstance env_race params_demo state_init"
  have rnd: "random_ok env_race"
    by (simp add: random_ok_def env_race_def env_ok_def)
  have req: "truthy_int (params_port params_demo)"
    by (simp add: truthy_int_def params_demo_def)
  have evs: "new_events state_init (snd ?run) =
    [EvExec Detect ''docker --version'' (ExecOk ''Up 2 seconds''),
     EvExec Detect ''docker ps'' (ExecOk ''Up 2 seconds''),
     EvUuid ''1b9d6bcd-bbfd-4b2d-9b5d-ab8dfbbd4bed'',
     EvAccess ''/tmp/ws'' IoOk, EvListen 12345 Listening,
     EvMkdir ''/app/src/tools/../../vscode-instances'' IoOk,
     EvNow ''2024-01-01T00:00:00.000Z'',
     EvWriteFile record_path
       (instanceConfig env_race params_demo ''1b9d6bcd'' ''vscode-demo-1b9d6bcd'' ''/tmp/ws''
          12345 ''2024-01-01T00:00:00.000Z'') IoOk,
     EvExec Launch
       (containerCommand env_race params_demo ''docker'' ''vscode-demo-1b9d6bcd'' ''/tmp/ws''
          12345)
       (ExecErr allocated_message),
     EvUnlink record_path IoOk, EvRandom (1 / 2), EvListen 37768 Listening]"
    by (simp add: eval_defs sample_defs env_race_def allocated_message_def)
  have launch: "EvExec Launch
       (containerCommand env_race params_demo ''docker'' ''vscode-demo-1b9d6bcd'' ''/tmp/ws''
          12345)
       (ExecErr allocated_message) \<in> set (new_events state_init (snd ?run))"
    by (simp add: evs)
  have msg: "str_includes allocated_message ''port is already allocated''"
    by (simp add: allocated_message_def)
  have res: "fst ?run = Inr (port_allocated_result 12345 37768)"
    by (simp add: eval_defs sample_defs env_race_def allocated_message_def)
  from launch_collision_rolls_back [OF rnd req prod.collapse [symmetric] launch msg]
  obtain path cfg out before after where
    split: "new_events state_init (snd ?run) = before @ EvUnlink path out # after"
    and gone: "out = IoOk \<longrightarrow> files (snd ?run) path = None"
    by blast
  have "EvUnlink path out \<in> set (new_events state_init (snd ?run))"
    by (simp add: split)
  then have "path = record_path" "out = IoOk"
    by (simp_all add: evs)
  with gone res show ?thesis by simp
qed

text \<open>
  The claim as stated fails: when the deletion fails and the allocator gives up, the
  record file is still there after the call and the result carries no suggested port.
\<close>

theorem launch_collision_counterexample:
  "EvListen 12345 Listening
     \<in> set (new_events state_init (snd (deployVSCodeInstance env_collision params_demo state_init)))
   \<and> EvExec Launch
        (containerCommand env_collision params_demo ''docker'' ''vscode-demo-1b9d6bcd''
           ''/tmp/ws'' 12345)
        (ExecErr allocated_message)
     \<in> set (new_events state_init (snd (deployVSCodeInstance env_collision params_demo state_init)))
   \<and> str_includes allocated_message ''port is already allocated''
   \<and> files (snd (deployVSCodeInstance env_collision params_demo state_init)) record_path
       = Some (instanceConfig env_collision params_demo ''1b9d6bcd'' ''vscode-demo-1b9d6bcd''
                 ''/tmp/ws'' 12345 ''2024-01-01T00:00:00.000Z'')
   \<and> fst (deployVSCodeInstance env_collision params_demo state_init)
       = Inr (caught_result
           (Error ''Could not find an available port after multiple attempts''))
   \<and> suggested_port (caught_result
           (Error ''Could not find an available port after multiple attempts'')) = None"
  by (simp add: eval_defs sample_defs env_collision_def env_race_def allocated_message_def suggested_port_def caught_result_def error_result_def)

text \<open>
  The allocator does not exclude the port of the failed launch: a random number that
  maps to 12345 makes the suggestion equal to the requested port.
\<close>

lemma suggested_port_may_repeat:
  "fst (deployVSCodeInstance (env_race\<lparr>random_result := (\<lambda>t. 4691 / 111072)\<rparr>)
          params_demo state_init)
     = Inr (port_allocated_result 12345 12345)"
  by (simp add: eval_defs sample_defs env_race_def allocated_message_def)

section \<open>The credential flag of the launch command\<close>

lemma str_includes_occurrences: "str_includes s sub \<longleftrightarrow> 0 < occurrences sub s"
  by (induction s) auto

lemma prefix_before_delimiter:
  assumes "d \<notin> set sub"
  shows "prefix sub (xs @ d # ys) \<longleftrightarrow> prefix sub xs"
proof
  assume "prefix sub (xs @ d # ys)"
  then consider "prefix sub xs" | us where "sub = xs @ us" "prefix us (d # ys)"
    by (auto simp: prefix_append)
  then show "prefix sub xs"
  proof cases
    case 2
    with assms have "us = []" by (cases us) auto
    with 2 show ?thesis by simp
  qed
next
  assume "prefix sub xs"
  then show "prefix sub (xs @ d # ys)" by (simp add: prefix_prefix)
qed

lemma occurrences_delimiter:
  assumes "d \<notin> set sub" "sub \<noteq> []"
  shows "occurrences sub (xs @ d # ys) = occurrences sub xs + occurrences sub ys"
proof (induction xs)
  case Nil
  from assms have "\<not> prefix sub (d # ys)" by (cases sub) auto
  with assms show ?case by simp
next
  case (Cons x xs)
  have "prefix sub (x # xs @ d # ys) \<longleftrightarrow> prefix sub (x # xs)"
    using prefix_before_delimiter[OF assms(1), of "x # xs" ys] by simp
  with Cons show ?case by simp
qed

lemma adjacent_in_zip: "(a, b) \<in> set (zip (zs @ a # b # us) (tl (zs @ a # b # us)))"
proof (induction zs)
  case (Cons z zs)
  have step: "zip (z # t) t = (z, hd t) # zip t (tl t)" if "t \<noteq> []" for t :: "'a list"
    using that by (cases t) simp_all
  from Cons step[of "zs @ a # b # us"] show ?case by simp
qed simp

lemma prefix_before_gap:
  assumes "sub \<noteq> []" "last sub \<noteq> d" "(d, c) \<notin> set (zip sub (tl sub))"
  shows "prefix sub (zs @ d # c # ys) \<longleftrightarrow> prefix sub zs"
proof
  assume "prefix sub (zs @ d # c # ys)"
  then have "prefix sub zs \<or> (\<exists>us. sub = zs @ us \<and> prefix us (d # c # ys))"
    by (simp add: prefix_append)
  then show "prefix sub zs"
  proof
    assume "\<exists>us. sub = zs @ us \<and> prefix us (d # c # ys)"
    then obtain us where us: "sub = zs @ us" "prefix us (d # c # ys)" by blast
    show ?thesis
    proof (cases us)
      case Nil
      with us show ?thesis by simp
    next
      case (Cons u us')
      with us have u: "u = d" "prefix us' (c # ys)" by simp_all
      show ?thesis
      proof (cases us')
        case Nil
        with us Cons u assms(2) show ?thesis by simp
      next
        case inner: (Cons c' us'')
        with u have "c' = c" by simp
        with us Cons u inner have "sub = zs @ d # c # us''" by simp
        with adjacent_in_zip[of d c zs us''] assms(3) show ?thesis by simp
      qed
    qed
  qed
next
  assume "prefix sub zs"
  then show "prefix sub (zs @ d # c # ys)" by (simp add: prefix_prefix)
qed

lemma occurrences_gap:
  assumes "sub \<noteq> []" "hd sub \<noteq> d" "last sub \<noteq> d" "(d, c) \<notin> set (zip sub (tl sub))"
  shows "occurrences sub (xs @ d # c # ys) = occurrences sub xs + occurrences sub (c # ys)"
proof (induction xs)
  case Nil
  from assms(1,2) have "\<not> prefix sub (d # c # ys)" by (cases sub) auto
  with assms(1) show ?case by simp
next
  case (Cons x xs)
  have "prefix sub (x # xs @ d # c # ys) \<longleftrightarrow> prefix sub (x # xs)"
    using prefix_before_gap[OF assms(1,3,4), of "x # xs" ys] by simp
  with Cons show ?case by simp
qed

lemma occurrences_missing_char:
  assumes "c \<in> set sub" "c \<notin> set s"
  shows "occurrences sub s = 0"
proof -
  have "\<not> prefix sub t" if "set t \<subseteq> set s" for t
    using assms that set_mono_prefix by fastforce
  then have "occurrences sub t = 0" if "set t \<subseteq> set s" for t
    using that assms(1) by (induction t) auto
  then show ?thesis by simp
qed

lemma occurrences_join:
  assumes "d \<notin> set sub" "sub \<noteq> []"
  shows "occurrences sub (join [d] xs) = sum_list (map (occurrences sub) xs)"
  by (induction "[d]" xs rule: join.induct)
     (use assms in \<open>auto simp: occurrences_delimiter\<close>)

lemma join_flags_head:
  assumes "\<forall>e \<in> set (y # ys). \<exists>t. e = CHR ''-'' # t"
  shows "\<exists>t. join sep (y # ys) = CHR ''-'' # t"
  using assms by (cases ys) auto

lemma occurrences_join_flags:
  assumes "\<forall>e \<in> set es. \<exists>t. e = CHR ''-'' # t"
  shows "occurrences ''-e PASSWORD='' (join '' '' es)
           = sum_list (map (occurrences ''-e PASSWORD='') es)"
  using assms
proof (induction "'' ''" es rule: join.induct)
  case (3 x y ys)
  from join_flags_head[of y ys "'' ''"] 3(2) obtain t where
    t: "join '' '' (y # ys) = CHR ''-'' # t" by auto
  have "occurrences ''-e PASSWORD='' (x @ CHR '' '' # CHR ''-'' # t)
      = occurrences ''-e PASSWORD='' x + occurrences ''-e PASSWORD='' (CHR ''-'' # t)"
    by (rule occurrences_gap) simp_all
  with 3 t show ?case by simp
qed simp_all

lemma digit_in_digits: "d < 10 \<Longrightarrow> digit d \<in> set ''0123456789''"
  unfolding digit_def by (rule nth_mem) simp

lemma string_of_nat_digits: "set (string_of_nat n) \<subseteq> set ''0123456789''"
proof (induction n rule: string_of_nat.induct)
  case (1 n)
  show ?case
  proof (cases "n < 10")
    case True
    then show ?thesis
      using digit_in_digits[of n] by (subst string_of_nat.simps) simp
  next
    case False
    with 1 digit_in_digits[of "n mod 10"] show ?thesis
      by (subst string_of_nat.simps) simp
  qed
qed

lemma occurrences_string_of_int [simp]: "occurrences ''-e PASSWORD='' (string_of_int port) = 0"
proof -
  have "CHR ''P'' \<notin> set (string_of_int port)"
    using string_of_nat_digits[of "nat port"] string_of_nat_digits[of "nat (- port)"]
    by (auto simp: string_of_int_def)
  then show ?thesis by (intro occurrences_missing_char[of "CHR ''P''"]) simp_all
qed

lemma occurrences_envVars:
  "occurrences ''-e PASSWORD=''
     (join '' '' (map (\<lambda>(key, val). ''-e '' @ key @ ''='' @ val) environment))
   = sum_list (map (\<lambda>(key, val). occurrences ''-e PASSWORD='' (''-e '' @ key @ ''='' @ val))
       environment)"
proof -
  have "occurrences ''-e PASSWORD=''
     (join '' '' (map (\<lambda>(key, val). ''-e '' @ key @ ''='' @ val) environment))
    = sum_list (map (occurrences ''-e PASSWORD='')
        (map (\<lambda>(key, val). ''-e '' @ key @ ''='' @ val) environment))"
    by (rule occurrences_join_flags) auto
  also have "\<dots> = sum_list (map (\<lambda>(key, val). occurrences ''-e PASSWORD='' (''-e '' @ key @ ''='' @ val))
       environment)"
    by (simp add: comp_def case_prod_unfold)
  finally show ?thesis .
qed

lemma DEFAULT_PASSWORD_nonempty: "DEFAULT_PASSWORD env \<noteq> []"
  by (simp add: DEFAULT_PASSWORD_def js_or_def split: option.splits)

lemma occurrences_command:
  "occurrences ''-e PASSWORD=''
     (buildContainerCommand runtime instanceName workspacePath port password extensions
        cpuLimit memoryLimit environment)
   = foreign_flags runtime instanceName workspacePath extensions cpuLimit memoryLimit
       environment
     + (case password of None \<Rightarrow> 0
        | Some pw \<Rightarrow> if pw = [] then 0 else 1 + occurrences ''-e PASSWORD='' pw)"
proof -
  define envVars where
    "envVars = join '' '' (map (\<lambda>(key, val). ''-e '' @ key @ ''='' @ val) environment)"
  define extensionsList where "extensionsList = join '','' extensions"
  define restartFlag where
    "restartFlag = (if runtime = ''podman'' then ''--restart=unless-stopped''
                    else ''--restart unless-stopped'')"
  define passwordEnv where
    "passwordEnv = (case password of None \<Rightarrow> []
                    | Some pw \<Rightarrow> if pw = [] then [] else ''-e PASSWORD='' @ pw)"
  have ext: "occurrences ''-e PASSWORD='' extensionsList
      = sum_list (map (occurrences ''-e PASSWORD='') extensions)"
    unfolding extensionsList_def by (rule occurrences_join) simp_all
  have env: "occurrences ''-e PASSWORD='' envVars
      = sum_list (map (\<lambda>(key, val). occurrences ''-e PASSWORD='' (''-e '' @ key @ ''='' @ val))
          environment)"
    unfolding envVars_def by (rule occurrences_envVars)
  have restart: "occurrences ''-e PASSWORD='' (restartFlag @ CHR '' '' # CHR '' '' # ys)
      = occurrences ''-e PASSWORD='' ys" for ys
    by (simp add: restartFlag_def)
  have slot: "occurrences ''-e PASSWORD='' (passwordEnv @ CHR '' '' # CHR '' '' # ys)
      = (case password of None \<Rightarrow> 0
         | Some pw \<Rightarrow> if pw = [] then 0 else 1 + occurrences ''-e PASSWORD='' pw)
        + occurrences ''-e PASSWORD='' ys" for ys
    by (simp add: passwordEnv_def occurrences_gap split: option.splits)
  have cmd: "buildContainerCommand runtime instanceName workspacePath port password extensions
        cpuLimit memoryLimit environment =
      runtime @ '' run -d '' @
         ''    --name '' @ instanceName @ '' '' @
         ''    '' @ restartFlag @ '' '' @
         ''    -p '' @ string_of_int port @ '':8080 '' @
         ''    -v '' @ workspacePath @ '':/workspace '' @
         ''    -v vscode-data-'' @ instanceName @ '':/home/coder/.local/share/code-server '' @
         ''    -v vscode-extensions-'' @ instanceName @ '':/home/coder/.vscode/extensions '' @
         ''    --cpus='' @ cpuLimit @ '' '' @
         ''    --memory='' @ memoryLimit @ '' '' @
         ''    '' @ envVars @ '' '' @
         ''    '' @ passwordEnv @ '' '' @
         ''    -e EXTENSIONS='' @ extensionsList @ '' '' @
         ''    codercom/code-server:latest''"
    by (simp add: buildContainerCommand_def Let_def envVars_def extensionsList_def
          restartFlag_def passwordEnv_def)
  have "occurrences ''-e PASSWORD=''
     (buildContainerCommand runtime instanceName workspacePath port password extensions
        cpuLimit memoryLimit environment)
    = occurrences ''-e PASSWORD='' runtime
     + occurrences ''-e PASSWORD='' instanceName
     + 2 * occurrences ''-e PASSWORD='' (''-'' @ instanceName)
     + occurrences ''-e PASSWORD='' workspacePath
     + occurrences ''-e PASSWORD='' cpuLimit
     + occurrences ''-e PASSWORD='' memoryLimit
     + occurrences ''-e PASSWORD='' envVars
     + occurrences ''-e PASSWORD='' extensionsList
     + (case password of None \<Rightarrow> 0
        | Some pw \<Rightarrow> if pw = [] then 0 else 1 + occurrences ''-e PASSWORD='' pw)"
    unfolding cmd
    by (simp add: occurrences_delimiter occurrences_gap prefix_before_delimiter restart slot)
  then show ?thesis
    by (simp add: foreign_flags_def ext env)
qed

lemma str_includes_infix: "str_includes (a @ sub @ b) sub"
proof (induction a)
  case Nil
  show ?case
  proof (cases "sub @ b")
    case Nil
    then show ?thesis by simp
  next
    case (Cons c cs)
    have "prefix sub (sub @ b)" by simp
    with Cons show ?thesis by simp
  qed
qed simp

lemma resolved_password_cases:
  "params_password params = Some [] \<Longrightarrow> resolved_password env params = []"
  "params_password params = None \<Longrightarrow> resolved_password env params = DEFAULT_PASSWORD env"
  by (simp_all add: resolved_password_def)

text \<open>
  C5, as the code has it. A credential flag is a place of the launch command where the
  text \<^verbatim>\<open>-e PASSWORD=\<close> starts. The launch command contains the credential flags that
  the other interpolated values spell out themselves (an environment entry named
  \<^verbatim>\<open>PASSWORD\<close> renders as one) and, from the password, none when the password is the
  empty string and exactly one, \<^verbatim>\<open>-e PASSWORD=\<close> followed by the configured default
  password, when the password is omitted. So with the empty password the command
  contains no credential flag exactly when no other value spells one; and with the
  password omitted it always contains the flag with the default password, and contains
  exactly one credential flag exactly when neither another value nor the text of the
  default password spells a further one.
\<close>

theorem passwordless_property:
  "(params_password params = Some [] \<longrightarrow>
      occurrences ''-e PASSWORD=''
        (buildContainerCommand runtime instanceName workspacePath port
           (Some (resolved_password env params)) extensions cpuLimit memoryLimit environment)
        = foreign_flags runtime instanceName workspacePath extensions cpuLimit memoryLimit
            environment
      \<and> (\<not> str_includes
              (buildContainerCommand runtime instanceName workspacePath port
                 (Some (resolved_password env params)) extensions cpuLimit memoryLimit
                 environment)
              ''-e PASSWORD=''
           \<longleftrightarrow> foreign_flags runtime instanceName workspacePath extensions cpuLimit
                 memoryLimit environment = 0))
   \<and> (params_password params = None \<longrightarrow>
      occurrences ''-e PASSWORD=''
        (buildContainerCommand runtime instanceName workspacePath port
           (Some (resolved_password env params)) extensions cpuLimit memoryLimit environment)
        = 1 + occurrences ''-e PASSWORD='' (DEFAULT_PASSWORD env)
            + foreign_flags runtime instanceName workspacePath extensions cpuLimit
                memoryLimit environment
      \<and> str_includes
            (buildContainerCommand runtime instanceName workspacePath port
               (Some (resolved_password env params)) extensions cpuLimit memoryLimit
               environment)
            (''-e PASSWORD='' @ DEFAULT_PASSWORD env @ '' '')
      \<and> (occurrences ''-e PASSWORD=''
            (buildContainerCommand runtime instanceName workspacePath port
               (Some (resolved_password env params)) extensions cpuLimit memoryLimit
               environment) = 1
           \<longleftrightarrow> foreign_flags runtime instanceName workspacePath extensions cpuLimit
                 memoryLimit environment = 0
               \<and> \<not> str_includes (DEFAULT_PASSWORD env) ''-e PASSWORD=''))"
proof -
  let ?cmd = "\<lambda>pw. buildContainerCommand runtime instanceName workspacePath port pw
                extensions cpuLimit memoryLimit environment"
  note count = occurrences_command[of runtime instanceName workspacePath port _ extensions
      cpuLimit memoryLimit environment]
  have flag: "str_includes (?cmd (Some pw)) (''-e PASSWORD='' @ pw @ '' '')" if "pw \<noteq> []" for pw
  proof -
    have "?cmd (Some pw) =
        (runtime @ '' run -d '' @
         ''    --name '' @ instanceName @ '' '' @
         ''    '' @ (if runtime = ''podman'' then ''--restart=unless-stopped''
                     else ''--restart unless-stopped'') @ '' '' @
         ''    -p '' @ string_of_int port @ '':8080 '' @
         ''    -v '' @ workspacePath @ '':/workspace '' @
         ''    -v vscode-data-'' @ instanceName @ '':/home/coder/.local/share/code-server '' @
         ''    -v vscode-extensions-'' @ instanceName @ '':/home/coder/.vscode/extensions '' @
         ''    --cpus='' @ cpuLimit @ '' '' @
         ''    --memory='' @ memoryLimit @ '' '' @
         ''    '' @ join '' '' (map (\<lambda>(key, val). ''-e '' @ key @ ''='' @ val) environment)
           @ '' '' @ ''    '')
        @ (''-e PASSWORD='' @ pw @ '' '')
        @ (''    -e EXTENSIONS='' @ join '','' extensions @ '' '' @
           ''    codercom/code-server:latest'')"
      using that by (simp add: buildContainerCommand_def Let_def)
    then show ?thesis
      by (simp only: str_includes_infix)
  qed
  show ?thesis
    using count[of "Some (resolved_password env params)"]
      flag[of "DEFAULT_PASSWORD env"] DEFAULT_PASSWORD_nonempty[of env]
    by (auto simp: resolved_password_cases str_includes_occurrences)
qed

theorem passwordless_property_witness:
  "\<not> str_includes
       (buildContainerCommand ''docker'' ''vscode-demo-1b9d6bcd'' ''/tmp/ws'' 12345
          (Some (resolved_password env_configured params_demo)) [''ms-python.python'']
          ''1.0'' ''2g'' [(''DB_PASSWORD'', ''hunter2'')])
       ''-e PASSWORD=''
   \<and> occurrences ''-e PASSWORD=''
       (buildContainerCommand ''docker'' ''vscode-demo-1b9d6bcd'' ''/tmp/ws'' 12345
          (Some (resolved_password env_configured (params_demo\<lparr>params_password := None\<rparr>)))
          [''ms-python.python''] ''1.0'' ''2g'' [(''DB_PASSWORD'', ''hunter2'')]) = 1
   \<and> str_includes
       (buildContainerCommand ''docker'' ''vscode-demo-1b9d6bcd'' ''/tmp/ws'' 12345
          (Some (resolved_password env_configured (params_demo\<lparr>params_password := None\<rparr>)))
          [''ms-python.python''] ''1.0'' ''2g'' [(''DB_PASSWORD'', ''hunter2'')])
       ''-e PASSWORD=PASSWORD1 ''"
proof -
  have none: "foreign_flags ''docker'' ''vscode-demo-1b9d6bcd'' ''/tmp/ws''
      [''ms-python.python''] ''1.0'' ''2g'' [(''DB_PASSWORD'', ''hunter2'')] = 0"
    by (simp add: foreign_flags_def)
  have dp: "DEFAULT_PASSWORD env_configured = ''PASSWORD1''"
    by (simp add: DEFAULT_PASSWORD_def js_or_def env_configured_def env_ok_def)
  have "params_password params_demo = Some []"
    "params_password (params_demo\<lparr>params_password := None\<rparr>) = None"
    "\<not> str_includes (DEFAULT_PASSWORD env_configured) ''-e PASSWORD=''"
    by (simp_all add: params_demo_def dp)
  with passwordless_property
      [of params_demo "''docker''" "''vscode-demo-1b9d6bcd''" "''/tmp/ws''" 12345
         env_configured "[''ms-python.python'']" "''1.0''" "''2g''"
         "[(''DB_PASSWORD'', ''hunter2'')]"]
    passwordless_property
      [of "params_demo\<lparr>params_password := None\<rparr>" "''docker''"
         "''vscode-demo-1b9d6bcd''" "''/tmp/ws''" 12345 env_configured
         "[''ms-python.python'']" "''1.0''" "''2g''" "[(''DB_PASSWORD'', ''hunter2'')]"]
    none
  show ?thesis by (simp add: dp)
qed

text \<open>
  The claim as stated fails: an environment entry named \<^verbatim>\<open>PASSWORD\<close> is interpolated
  like any other, so that a passwordless command carries a credential flag and a command
  with the default password carries two.
\<close>

theorem passwordless_property_counterexample:
  "resolved_password env_ok
     (params_demo\<lparr>params_environment := Some [(''PASSWORD'', ''hunter2'')]\<rparr>) = []
   \<and> str_includes
       (containerCommand env_ok (params_demo\<lparr>params_environment := Some [(''PASSWORD'', ''hunter2'')]\<rparr>)
          ''docker'' ''vscode-demo-1b9d6bcd'' ''/tmp/ws'' 12345)
       ''-e PASSWORD=hunter2''
   \<and> occurrences ''-e PASSWORD=''
       (containerCommand env_ok
          (params_demo\<lparr>params_password := None,
             params_environment := Some [(''PASSWORD'', ''hunter2'')]\<rparr>)
          ''docker'' ''vscode-demo-1b9d6bcd'' ''/tmp/ws'' 12345) = 2"
  by (simp add: params_demo_def env_ok_def containerCommand_def buildContainerCommand_def
        resolved_password_def resolved_extensions_def resolved_cpu_limit_def
        resolved_memory_limit_def resolved_environment_def DEFAULT_PASSWORD_def
        DEFAULT_EXTENSIONS_def DEFAULT_CPU_LIMIT_def DEFAULT_MEMORY_LIMIT_def js_or_def
        string_of_int_def string_of_nat.simps digit_def Let_def)

end
